theory Spec2Isabelle
  imports Complex_Main
begin

section \<open>JavaScript values and library functions used by the server\<close>

subsection \<open>Strings and numbers\<close>

text \<open>
  A JavaScript string is modelled as a \<^typ>\<open>string\<close>. A string is truthy exactly when
  it is not empty; \<open>undefined\<close> and \<open>null\<close> are falsy.
\<close>

definition truthy_string :: "string \<Rightarrow> bool" where
  "truthy_string s = (s \<noteq> [])"

text \<open>
  A value of TypeScript type \<open>string | null | undefined\<close>
  (the type of \<open>InsertBooking.specialRequests\<close>).
\<close>

datatype opt_string = Undefined | Null | Str string

text \<open>\<open>x || null\<close> for \<open>x\<close> of type \<open>string | null | undefined\<close>.\<close>

fun or_null :: "opt_string \<Rightarrow> string option" where
  "or_null (Str s) = (if truthy_string s then Some s else None)"
| "or_null Null = None"
| "or_null Undefined = None"

text \<open>
  \<open>x || y\<close> for an optional argument \<open>x?: string\<close> (\<open>None\<close> is \<open>undefined\<close>) and
  \<open>y\<close> of type \<open>string | null\<close> (\<open>None\<close> is \<open>null\<close>).
\<close>

fun or_else :: "string option \<Rightarrow> string option \<Rightarrow> string option" where
  "or_else (Some s) y = (if truthy_string s then Some s else y)"
| "or_else None y = y"

text \<open>\<open>String(n)\<close> for an integral number: its decimal digits, with a sign when negative.\<close>

definition digit_char :: "nat \<Rightarrow> char" where
  "digit_char d = ''0123456789'' ! d"

function String_nat :: "nat \<Rightarrow> string" where
  "String_nat n =
     (if n < 10 then [digit_char n] else String_nat (n div 10) @ [digit_char (n mod 10)])"
  by pat_completeness auto
termination
  by (relation "measure id") auto

declare String_nat.simps [simp del]

definition String_int :: "int \<Rightarrow> string" where
  "String_int i = (if i < 0 then CHR ''-'' # String_nat (nat (- i)) else String_nat (nat i))"

text \<open>\<open>s.padStart(targetLength, c)\<close> for a pad string of the single character \<open>c\<close>.\<close>

definition padStart :: "string \<Rightarrow> nat \<Rightarrow> char \<Rightarrow> string" where
  "padStart s targetLength c = replicate (targetLength - length s) c @ s"

text \<open>Reading a string of decimal digits back as a number, to state what a reference holds.\<close>

definition is_digit :: "char \<Rightarrow> bool" where
  "is_digit c = (c \<in> set ''0123456789'')"

definition digit_value :: "char \<Rightarrow> nat" where
  "digit_value c = (of_char c - 48)"

definition decimal_value :: "string \<Rightarrow> nat" where
  "decimal_value s = foldl (\<lambda>acc c. 10 * acc + digit_value c) 0 s"

subsection \<open>Numbers: the product \<open>Math.random() * 999999\<close>\<close>

text \<open>
  A JavaScript number is an IEEE 754 double. A finite double that is not negative is
  \<open>mantissa * 2 ^ exponent\<close> with a mantissa below \<open>2 ^ 53\<close> and an exponent from
  \<open>-1074\<close> on. \<open>Math.random()\<close> returns such a double that is below 1.
\<close>

record double =
  mantissa :: nat
  exponent :: int

text \<open>The real number that a double stands for.\<close>

definition double_value :: "double \<Rightarrow> real" where
  "double_value d = real (mantissa d) * 2 powr real_of_int (exponent d)"

definition unit_double :: "double \<Rightarrow> bool" where
  "unit_double d =
     (mantissa d < 2 ^ 53 \<and> - 1074 \<le> exponent d
      \<and> (mantissa d = 0 \<or> (exponent d < 0 \<and> mantissa d < 2 ^ nat (- exponent d))))"

text \<open>The number of binary digits of a natural number.\<close>

function bit_length :: "nat \<Rightarrow> nat" where
  "bit_length n = (if n = 0 then 0 else Suc (bit_length (n div 2)))"
  by pat_completeness auto
termination
  by (relation "measure id") auto

declare bit_length.simps [simp del]

text \<open>
  \<open>m / 2 ^ s\<close> rounded to the nearest natural number, a tie going to the even one: the
  rounding of IEEE 754 that JavaScript's arithmetic uses.
\<close>

definition round_half_even :: "nat \<Rightarrow> nat \<Rightarrow> nat" where
  "round_half_even m s =
     (if s = 0 then m
      else
        (let q = m div 2 ^ s; r = m mod 2 ^ s; h = 2 ^ (s - 1)
         in if r < h then q else if h < r then q + 1 else if even q then q else q + 1))"

text \<open>
  \<open>d * c\<close> for a double \<open>d\<close> and a natural number \<open>c\<close> that is a double: the exact
  product \<open>(mantissa d * c) * 2 ^ exponent d\<close>, rounded to 53 binary digits when it has
  more. A product of at most 53 digits is a double as it stands, and a rounded one is at
  least \<open>2 ^ 53 * 2 ^ -1074\<close>, a normal double, so that 53 digits is its precision. (The
  product of a double below 1 does not overflow.)
\<close>

definition double_times :: "double \<Rightarrow> nat \<Rightarrow> double" where
  "double_times d c =
     (let m = mantissa d * c; s = bit_length m - 53
      in \<lparr>mantissa = round_half_even m s, exponent = exponent d + int s\<rparr>)"

text \<open>\<open>Math.floor(d)\<close>, an integer.\<close>

definition Math_floor :: "double \<Rightarrow> int" where
  "Math_floor d =
     (if 0 \<le> exponent d then int (mantissa d * 2 ^ nat (exponent d))
      else int (mantissa d div 2 ^ nat (- exponent d)))"

subsection \<open>Map: a dictionary that keeps insertion order\<close>

text \<open>
  A JavaScript \<open>Map\<close> iterates in insertion order, and \<open>set\<close> on a key that is
  present replaces the value where it stands. The order decides which booking
  \<open>Array.from(map.values()).find(...)\<close> returns.
\<close>

type_synonym ('k, 'v) js_map = "('k \<times> 'v) list"

fun map_set :: "('k, 'v) js_map \<Rightarrow> 'k \<Rightarrow> 'v \<Rightarrow> ('k, 'v) js_map" where
  "map_set [] k v = [(k, v)]"
| "map_set ((k', v') # m) k v =
     (if k' = k then (k, v) # m else (k', v') # map_set m k v)"

definition map_get :: "('k, 'v) js_map \<Rightarrow> 'k \<Rightarrow> 'v option" where
  "map_get m k = map_of m k"

definition map_values :: "('k, 'v) js_map \<Rightarrow> 'v list" where
  "map_values m = map snd m"

section \<open>shared/schema.ts: the entities\<close>

record user =
  user_id :: string
  username :: string
  password :: string

record experience =
  exp_id :: string
  exp_name :: string
  exp_description :: string
  exp_price :: string
  exp_duration :: string
  exp_image :: string
  exp_type :: string

text \<open>
  \<open>Booking\<close>: nullable columns are options (\<open>None\<close> is \<open>null\<close>); \<open>createdAt\<close> is the
  time value of the \<open>Date\<close>, in milliseconds.
\<close>

record booking =
  booking_id :: string
  referenceNumber :: string
  experienceId :: string
  firstName :: string
  lastName :: string
  email :: string
  phone :: string
  checkinDate :: string
  checkoutDate :: string
  participants :: int
  specialRequests :: "string option"
  totalAmount :: string
  paymentStatus :: "string option"
  stripePaymentIntentId :: "string option"
  createdAt :: int

text \<open>
  \<open>InsertBooking\<close>: the booking columns without \<open>id\<close>, \<open>referenceNumber\<close>,
  \<open>createdAt\<close>, \<open>paymentStatus\<close> and \<open>stripePaymentIntentId\<close>.
\<close>

record insert_booking =
  ins_experienceId :: string
  ins_firstName :: string
  ins_lastName :: string
  ins_email :: string
  ins_phone :: string
  ins_checkinDate :: string
  ins_checkoutDate :: string
  ins_participants :: int
  ins_specialRequests :: opt_string
  ins_totalAmount :: string

section \<open>storage.ts: MemStorage\<close>

text \<open>
  What a call reads from outside the program: the result of \<open>randomUUID()\<close>, of
  \<open>new Date().getFullYear()\<close>, of \<open>Math.random()\<close> (a double), and of the two
  readings of the clock in milliseconds that a handler makes.
\<close>

record env =
  randomUUID :: string
  fullYear :: int
  mathRandom :: double
  dateNow :: int
  dateNow2 :: int

record store =
  users :: "(string, user) js_map"
  experiences :: "(string, experience) js_map"
  bookings :: "(string, booking) js_map"

definition defaultExperiences :: "experience list" where
  "defaultExperiences =
    [\<lparr>exp_id = ''meditation-retreats'', exp_name = ''Meditation Retreats'',
      exp_description = ''Join guided meditation sessions with Buddhist monks in serene monastery settings.'',
      exp_price = ''120.00'', exp_duration = ''3-7 days'',
      exp_image = ''https://images.unsplash.com/photo-1506905925346-21bda4d32df4?ixlib=rb-4.0.3&auto=format&fit=crop&w=600&h=300'',
      exp_type = ''meditation-retreats''\<rparr>,
     \<lparr>exp_id = ''monastery-treks'', exp_name = ''Monastery Treks'',
      exp_description = ''Embark on scenic treks to remote monasteries through pristine Himalayan landscapes.'',
      exp_price = ''200.00'', exp_duration = ''5-10 days'',
      exp_image = ''https://images.unsplash.com/photo-1544735716-392fe2489ffa?ixlib=rb-4.0.3&auto=format&fit=crop&w=600&h=300'',
      exp_type = ''monastery-treks''\<rparr>,
     \<lparr>exp_id = ''cultural-workshops'', exp_name = ''Cultural Workshops'',
      exp_description = ''Learn traditional Buddhist arts, crafts, and philosophy from local masters.'',
      exp_price = ''80.00'', exp_duration = ''2-5 days'',
      exp_image = ''https://images.unsplash.com/photo-1578662996442-48f60103fc96?ixlib=rb-4.0.3&auto=format&fit=crop&w=600&h=300'',
      exp_type = ''cultural-workshops''\<rparr>,
     \<lparr>exp_id = ''sunrise-tours'', exp_name = ''Sunrise Tours'',
      exp_description = ''Witness breathtaking sunrises over the Himalayas from monastery viewpoints.'',
      exp_price = ''60.00'', exp_duration = ''1-2 days'',
      exp_image = ''https://images.unsplash.com/photo-1506905925346-21bda4d32df4?ixlib=rb-4.0.3&auto=format&fit=crop&w=600&h=300'',
      exp_type = ''sunrise-tours''\<rparr>]"

text \<open>The constructor: empty maps, then \<open>initializeExperiences\<close>.\<close>

definition initializeExperiences :: "store \<Rightarrow> store" where
  "initializeExperiences s =
     s\<lparr>experiences := foldl (\<lambda>m e. map_set m (exp_id e) e) (experiences s) defaultExperiences\<rparr>"

definition MemStorage :: store where
  "MemStorage = initializeExperiences \<lparr>users = [], experiences = [], bookings = []\<rparr>"

definition getAllExperiences :: "store \<Rightarrow> experience list" where
  "getAllExperiences s = map_values (experiences s)"

definition getExperience :: "store \<Rightarrow> string \<Rightarrow> experience option" where
  "getExperience s i = map_get (experiences s) i"

definition getBooking :: "store \<Rightarrow> string \<Rightarrow> booking option" where
  "getBooking s i = map_get (bookings s) i"

definition getBookingByReference :: "store \<Rightarrow> string \<Rightarrow> booking option" where
  "getBookingByReference s r =
     find (\<lambda>b. referenceNumber b = r) (map_values (bookings s))"

definition newReferenceNumber :: "env \<Rightarrow> string" where
  "newReferenceNumber e =
     ''SM-'' @ String_int (fullYear e) @ ''-''
       @ padStart (String_int (Math_floor (double_times (mathRandom e) 999999))) 6 CHR ''0''"

definition createBooking :: "env \<Rightarrow> insert_booking \<Rightarrow> store \<Rightarrow> booking \<times> store" where
  "createBooking e insertBooking s =
     (let i = randomUUID e;
          r = newReferenceNumber e;
          b = \<lparr>booking_id = i,
               referenceNumber = r,
               experienceId = ins_experienceId insertBooking,
               firstName = ins_firstName insertBooking,
               lastName = ins_lastName insertBooking,
               email = ins_email insertBooking,
               phone = ins_phone insertBooking,
               checkinDate = ins_checkinDate insertBooking,
               checkoutDate = ins_checkoutDate insertBooking,
               participants = ins_participants insertBooking,
               specialRequests = or_null (ins_specialRequests insertBooking),
               totalAmount = ins_totalAmount insertBooking,
               paymentStatus = Some ''pending'',
               stripePaymentIntentId = None,
               createdAt = dateNow e\<rparr>
      in (b, s\<lparr>bookings := map_set (bookings s) i b\<rparr>))"

definition updateBookingPaymentStatus ::
  "string \<Rightarrow> string \<Rightarrow> string option \<Rightarrow> store \<Rightarrow> booking option \<times> store" where
  "updateBookingPaymentStatus i status paymentIntentId s =
     (case map_get (bookings s) i of
        None \<Rightarrow> (None, s)
      | Some b \<Rightarrow>
          (let updatedBooking =
                 b\<lparr>paymentStatus := Some status,
                   stripePaymentIntentId := or_else paymentIntentId (stripePaymentIntentId b)\<rparr>
           in (Some updatedBooking, s\<lparr>bookings := map_set (bookings s) i updatedBooking\<rparr>)))"

section \<open>shared/schema.ts: insertBookingSchema\<close>

text \<open>
  The request body after JSON parsing: an object, as the list of its properties
  (a JavaScript object has each key once; the lookup takes the first).
\<close>

datatype json =
  JNull | JBool bool | JNum real | JStr string | JArr "json list" | JObj "(string \<times> json) list"

fun received :: "json option \<Rightarrow> string" where
  "received None = ''undefined''"
| "received (Some JNull) = ''null''"
| "received (Some (JBool _)) = ''boolean''"
| "received (Some (JNum _)) = ''number''"
| "received (Some (JStr _)) = ''string''"
| "received (Some (JArr _)) = ''array''"
| "received (Some (JObj _)) = ''object''"

datatype issue = Issue (code: string) (path: "string list") (message: string)

text \<open>
  The columns of the \<open>bookings\<close> table that \<open>insertBookingSchema\<close> keeps, in the order of
  the table, with their column type and whether they are declared \<open>notNull()\<close>.
\<close>

datatype column_type = Varchar | Text | Integer | Decimal

type_synonym column = "string \<times> column_type \<times> bool"

definition insertBookingSchema :: "column list" where
  "insertBookingSchema =
    [(''experienceId'', Varchar, True),
     (''firstName'', Text, True),
     (''lastName'', Text, True),
     (''email'', Text, True),
     (''phone'', Text, True),
     (''checkinDate'', Text, True),
     (''checkoutDate'', Text, True),
     (''participants'', Integer, True),
     (''specialRequests'', Text, False),
     (''totalAmount'', Decimal, True)]"

text \<open>
  Modelled from the spec: \<open>createInsertSchema\<close> of the library drizzle-zod, which
  turns the column declarations into checks and is not part of the sources. The spec
  (4.2) has the validation check the shape and types of the payload: strings, an integer
  participant count, a decimal-as-string amount. So a \<open>varchar\<close>, \<open>text\<close> or \<open>decimal\<close>
  column accepts any string and an \<open>integer\<close> column a number that is an integer; a
  \<open>notNull()\<close> column is required, and any other column may be missing or \<open>null\<close>. No
  column declaration of the source puts a format on a string, so none is checked.
\<close>

definition invalid_type :: "string \<Rightarrow> string \<Rightarrow> json option \<Rightarrow> issue" where
  "invalid_type name expected v =
     Issue ''invalid_type'' [name]
       (if v = None then ''Required''
        else ''Expected '' @ expected @ '', received '' @ received v)"

definition check_value :: "string \<Rightarrow> column_type \<Rightarrow> json \<Rightarrow> issue list" where
  "check_value name ty v =
     (if ty = Integer then
        (case v of
           JNum x \<Rightarrow>
             (if of_int \<lfloor>x\<rfloor> = x then []
              else [Issue ''invalid_type'' [name] ''Expected integer, received float''])
         | _ \<Rightarrow> [invalid_type name ''number'' (Some v)])
      else
        (case v of
           JStr x \<Rightarrow> []
         | _ \<Rightarrow> [invalid_type name ''string'' (Some v)]))"

fun check_field :: "column \<Rightarrow> json option \<Rightarrow> issue list" where
  "check_field (name, ty, notNull) None =
     (if notNull then [invalid_type name (if ty = Integer then ''number'' else ''string'') None]
      else [])"
| "check_field (name, ty, notNull) (Some JNull) =
     (if notNull
      then [invalid_type name (if ty = Integer then ''number'' else ''string'') (Some JNull)]
      else [])"
| "check_field (name, ty, notNull) (Some v) = check_value name ty v"

definition field_issues :: "(string \<times> json) list \<Rightarrow> column \<Rightarrow> issue list" where
  "field_issues body c = check_field c (map_of body (fst c))"

fun string_of :: "json option \<Rightarrow> string" where
  "string_of (Some (JStr x)) = x"
| "string_of _ = []"

fun int_of :: "json option \<Rightarrow> int" where
  "int_of (Some (JNum x)) = \<lfloor>x\<rfloor>"
| "int_of _ = 0"

fun opt_string_of :: "json option \<Rightarrow> opt_string" where
  "opt_string_of (Some (JStr x)) = Str x"
| "opt_string_of (Some JNull) = Null"
| "opt_string_of _ = Undefined"

text \<open>
  Modelled from the spec: \<open>parse\<close> of the library zod, which is not part of the
  sources. The spec (4.2) has it return the normalized record on success and, on failure,
  report every field that failed and why, not only the first: the issues of all the
  columns are collected, in the order of the columns.
\<close>

definition parse :: "(string \<times> json) list \<Rightarrow> issue list + insert_booking" where
  "parse body =
     (let issues = concat (map (field_issues body) insertBookingSchema)
      in if issues \<noteq> [] then Inl issues
         else Inr \<lparr>ins_experienceId = string_of (map_of body ''experienceId''),
                   ins_firstName = string_of (map_of body ''firstName''),
                   ins_lastName = string_of (map_of body ''lastName''),
                   ins_email = string_of (map_of body ''email''),
                   ins_phone = string_of (map_of body ''phone''),
                   ins_checkinDate = string_of (map_of body ''checkinDate''),
                   ins_checkoutDate = string_of (map_of body ''checkoutDate''),
                   ins_participants = int_of (map_of body ''participants''),
                   ins_specialRequests = opt_string_of (map_of body ''specialRequests''),
                   ins_totalAmount = string_of (map_of body ''totalAmount'')\<rparr>)"

section \<open>routes.ts: the six operations\<close>

text \<open>
  A request carries what its handler reads. The two payment handlers destructure
  \<open>amount\<close>, \<open>bookingId\<close> and \<open>paymentIntentId\<close> from the body; they are taken at the
  types of the documented request: a number or a string, or missing (\<open>None\<close>).
\<close>

datatype request =
  GetExperiences
| GetExperienceById string
| PostBookings "(string \<times> json) list"
| GetBookingByRef string
| PostCreatePaymentIntent "real option" "string option"
| PostConfirmPayment "string option" "string option"

datatype response_body =
  ExperiencesBody "experience list"
| ExperienceBody experience
| BookingBody booking
| MessageBody string
| ValidationErrorBody string "issue list"
| PaymentIntentBody (clientSecret: string) (paymentIntentId: string)
| ConfirmationBody (success: bool) (confirmed_booking: "booking option") (confirmed_status: string)

datatype response = Response (status_code: nat) (json_body: response_body)

text \<open>
  No operation of \<open>MemStorage\<close> throws, so a \<open>catch\<close> branch is reached only by the
  validation error of \<open>POST /api/bookings\<close>, which answers 400; no handler answers 500.
\<close>

definition get_experiences :: "store \<Rightarrow> response \<times> store" where
  "get_experiences s = (Response 200 (ExperiencesBody (getAllExperiences s)), s)"

definition get_experience :: "string \<Rightarrow> store \<Rightarrow> response \<times> store" where
  "get_experience i s =
     (case getExperience s i of
        None \<Rightarrow> (Response 404 (MessageBody ''Experience not found''), s)
      | Some x \<Rightarrow> (Response 200 (ExperienceBody x), s))"

definition post_bookings :: "env \<Rightarrow> (string \<times> json) list \<Rightarrow> store \<Rightarrow> response \<times> store" where
  "post_bookings e reqBody s =
     (case parse reqBody of
        Inl errors \<Rightarrow> (Response 400 (ValidationErrorBody ''Validation error'' errors), s)
      | Inr validatedData \<Rightarrow>
          (let (b, s') = createBooking e validatedData s
           in (Response 201 (BookingBody b), s')))"

definition get_booking :: "string \<Rightarrow> store \<Rightarrow> response \<times> store" where
  "get_booking reference s =
     (case getBookingByReference s reference of
        None \<Rightarrow> (Response 404 (MessageBody ''Booking not found''), s)
      | Some b \<Rightarrow> (Response 200 (BookingBody b), s))"

text \<open>\<open>!amount || amount <= 0\<close> for a number or \<open>undefined\<close>.\<close>

fun amount_rejected :: "real option \<Rightarrow> bool" where
  "amount_rejected None = True"
| "amount_rejected (Some a) = (a = 0 \<or> a \<le> 0)"

definition create_payment_intent ::
  "env \<Rightarrow> real option \<Rightarrow> string option \<Rightarrow> store \<Rightarrow> response \<times> store" where
  "create_payment_intent e amount bookingId s =
     (if amount_rejected amount
      then (Response 400 (MessageBody ''Valid amount is required''), s)
      else
        (let mockPaymentIntentId = ''pi_mock_'' @ String_int (dateNow e);
             s' = (case bookingId of
                     Some i \<Rightarrow>
                       if truthy_string i
                       then snd (updateBookingPaymentStatus i ''processing''
                                   (Some mockPaymentIntentId) s)
                       else s
                   | None \<Rightarrow> s)
         in (Response 200
               (PaymentIntentBody (''pi_mock_'' @ String_int (dateNow2 e) @ ''_secret_mock'')
                  mockPaymentIntentId), s')))"

definition confirm_payment ::
  "string option \<Rightarrow> string option \<Rightarrow> store \<Rightarrow> response \<times> store" where
  "confirm_payment paymentIntent bookingId s =
     (case (paymentIntent, bookingId) of
        (Some p, Some i) \<Rightarrow>
          if \<not> truthy_string p \<or> \<not> truthy_string i
          then (Response 400 (MessageBody ''Payment intent ID and booking ID are required''), s)
          else
            (let (updatedBooking, s') = updateBookingPaymentStatus i ''completed'' (Some p) s
             in (Response 200 (ConfirmationBody True updatedBooking ''succeeded''), s'))
      | _ \<Rightarrow> (Response 400 (MessageBody ''Payment intent ID and booking ID are required''), s))"

fun registerRoutes :: "env \<Rightarrow> request \<Rightarrow> store \<Rightarrow> response \<times> store" where
  "registerRoutes e GetExperiences s = get_experiences s"
| "registerRoutes e (GetExperienceById i) s = get_experience i s"
| "registerRoutes e (PostBookings reqBody) s = post_bookings e reqBody s"
| "registerRoutes e (GetBookingByRef r) s = get_booking r s"
| "registerRoutes e (PostCreatePaymentIntent amount bookingId) s =
     create_payment_intent e amount bookingId s"
| "registerRoutes e (PostConfirmPayment p bookingId) s = confirm_payment p bookingId s"

text \<open>A sequence of requests, each with what it reads from outside, served in order.\<close>

fun serve :: "(env \<times> request) list \<Rightarrow> store \<Rightarrow> store" where
  "serve [] s = s"
| "serve ((e, r) # rs) s = serve rs (snd (registerRoutes e r s))"


section \<open>Example inputs\<close>

text \<open>
  A clock in 2025 and a random number that is the double nearest to 0.04, whose rounded
  product with 999999 has the integer part 39999; a second call in the same year that
  draws the same number.
\<close>

definition example_env :: env where
  "example_env =
     \<lparr>randomUUID = ''1b4e28ba-2fa1-41d2-883f-0016d3cca427'', fullYear = 2025,
      mathRandom = \<lparr>mantissa = 5764607523034235, exponent = - 57\<rparr>,
      dateNow = 1735725600000, dateNow2 = 1735725600003\<rparr>"

definition example_env2 :: env where
  "example_env2 =
     \<lparr>randomUUID = ''6fa459ea-ee8a-4ca4-894e-db77e160355e'', fullYear = 2025,
      mathRandom = \<lparr>mantissa = 5764607523034235, exponent = - 57\<rparr>,
      dateNow = 1735729200000, dateNow2 = 1735729200002\<rparr>"

text \<open>A third call in the same year, which draws \<open>1/2\<close>.\<close>

definition example_env3 :: env where
  "example_env3 =
     \<lparr>randomUUID = ''9c5b94b1-35ad-49bb-b118-8e8fc24abf80'', fullYear = 2025,
      mathRandom = \<lparr>mantissa = 1, exponent = - 1\<rparr>,
      dateNow = 1735732800000, dateNow2 = 1735732800001\<rparr>"

text \<open>
  A call that draws \<open>2702162478584776 / 2 ^ 52\<close>: the exact product with 999999 is a
  little below 600000, and the double nearest to it is 600000.
\<close>

definition example_env_rounding :: env where
  "example_env_rounding =
     \<lparr>randomUUID = ''3d0ca315-aff9-4fc2-be61-3b76b9a2d798'', fullYear = 2025,
      mathRandom = \<lparr>mantissa = 2702162478584776, exponent = - 52\<rparr>,
      dateNow = 1735736400000, dateNow2 = 1735736400001\<rparr>"

text \<open>The payload of the scenario for \<open>POST /api/bookings\<close>, as JSON and validated.\<close>

definition example_body :: "(string \<times> json) list" where
  "example_body =
     [(''experienceId'', JStr ''meditation-retreats''),
      (''checkinDate'', JStr ''2025-01-01''),
      (''checkoutDate'', JStr ''2025-01-03''),
      (''participants'', JNum 2),
      (''firstName'', JStr ''A''),
      (''lastName'', JStr ''B''),
      (''email'', JStr ''a@b.com''),
      (''phone'', JStr ''123''),
      (''totalAmount'', JStr ''240.00'')]"

definition example_payload :: insert_booking where
  "example_payload =
     \<lparr>ins_experienceId = ''meditation-retreats'', ins_firstName = ''A'', ins_lastName = ''B'',
      ins_email = ''a@b.com'', ins_phone = ''123'', ins_checkinDate = ''2025-01-01'',
      ins_checkoutDate = ''2025-01-03'', ins_participants = 2,
      ins_specialRequests = Undefined, ins_totalAmount = ''240.00''\<rparr>"

text \<open>
  The store after the scenario's booking has been created and a payment intent for it
  requested, and the booking it then holds.
\<close>

definition example_id :: string where
  "example_id = ''1b4e28ba-2fa1-41d2-883f-0016d3cca427''"

definition example_store :: store where
  "example_store =
     serve [(example_env, PostBookings example_body),
            (example_env, PostCreatePaymentIntent (Some 240) (Some example_id))] MemStorage"

definition example_booking :: booking where
  "example_booking =
     \<lparr>booking_id = example_id, referenceNumber = ''SM-2025-039999'',
      experienceId = ''meditation-retreats'', firstName = ''A'', lastName = ''B'',
      email = ''a@b.com'', phone = ''123'', checkinDate = ''2025-01-01'',
      checkoutDate = ''2025-01-03'', participants = 2, specialRequests = None,
      totalAmount = ''240.00'', paymentStatus = Some ''processing'',
      stripePaymentIntentId = Some ''pi_mock_1735725600000'', createdAt = 1735725600000\<rparr>"


text \<open>No booking is stored under the empty string: identifiers are UUIDs.\<close>

definition ids_nonempty :: "store \<Rightarrow> bool" where
  "ids_nonempty s = (\<forall>k \<in> set (map fst (bookings s)). k \<noteq> [])"

text \<open>The statuses that the creation and the two payment operations write.\<close>

definition mock_flow_statuses :: "store \<Rightarrow> bool" where
  "mock_flow_statuses s =
     (\<forall>b \<in> set (map_values (bookings s)).
        paymentStatus b \<in> {Some ''pending'', Some ''processing'', Some ''completed''})"

text \<open>The example store's requests followed by the confirmation of the payment.\<close>

definition example_requests :: "(env \<times> request) list" where
  "example_requests =
     [(example_env, PostBookings example_body),
      (example_env, PostCreatePaymentIntent (Some 240) (Some example_id)),
      (example_env3, PostConfirmPayment (Some ''pi_mock_1735732800000'') (Some example_id))]"

text \<open>
  What it is for a field of the body to be valid for its column: a required column has a
  value that is not \<open>null\<close>; a value for an \<open>integer\<close> column is a number that is an
  integer, and a value for any other column is a string.
\<close>

fun field_valid :: "column \<Rightarrow> json option \<Rightarrow> bool" where
  "field_valid (name, ty, notNull) None = (\<not> notNull)"
| "field_valid (name, ty, notNull) (Some JNull) = (\<not> notNull)"
| "field_valid (name, ty, notNull) (Some (JNum x)) = (ty = Integer \<and> of_int \<lfloor>x\<rfloor> = x)"
| "field_valid (name, ty, notNull) (Some (JStr x)) = (ty \<noteq> Integer)"
| "field_valid (name, ty, notNull) (Some v) = False"

text \<open>The scenario's payload with an email address that has no \<open>@\<close>, and one without email
  and with a participant count that is a string.\<close>

definition example_body_malformed_email :: "(string \<times> json) list" where
  "example_body_malformed_email =
     [(''experienceId'', JStr ''meditation-retreats''),
      (''checkinDate'', JStr ''2025-01-01''),
      (''checkoutDate'', JStr ''2025-01-03''),
      (''participants'', JNum 2),
      (''firstName'', JStr ''A''),
      (''lastName'', JStr ''B''),
      (''email'', JStr ''not-an-email''),
      (''phone'', JStr ''123''),
      (''totalAmount'', JStr ''240.00'')]"

definition example_body_invalid :: "(string \<times> json) list" where
  "example_body_invalid =
     [(''experienceId'', JStr ''meditation-retreats''),
      (''checkinDate'', JStr ''2025-01-01''),
      (''checkoutDate'', JStr ''2025-01-03''),
      (''participants'', JStr ''two''),
      (''firstName'', JStr ''A''),
      (''lastName'', JStr ''B''),
      (''phone'', JStr ''123''),
      (''totalAmount'', JStr ''240.00'')]"

section \<open>Facts about the map\<close>

lemma map_of_map_set: "map_of (map_set m k v) = (map_of m)(k \<mapsto> v)"
  by (induction m) (auto simp: fun_eq_iff)

lemma map_get_map_set: "map_get (map_set m k v) k' = (if k' = k then Some v else map_get m k')"
  by (simp add: map_get_def map_of_map_set)


section \<open>Facts about decimal strings\<close>

lemma digit_char_is_digit: "d < 10 \<Longrightarrow> is_digit (digit_char d)"
proof -
  assume "d < 10"
  then have "d \<in> {0,1,2,3,4,5,6,7,8,9}" by auto
  then show ?thesis
    by (auto simp: is_digit_def digit_char_def)
qed

lemma digit_value_digit_char: "d < 10 \<Longrightarrow> digit_value (digit_char d) = d"
proof -
  assume "d < 10"
  then have "d \<in> {0,1,2,3,4,5,6,7,8,9}" by auto
  then show ?thesis
    by (auto simp: digit_value_def digit_char_def)
qed

lemma String_nat_digits: "\<forall>c \<in> set (String_nat n). is_digit c"
proof (induction n rule: String_nat.induct)
  case (1 n)
  show ?case
  proof (cases "n < 10")
    case True
    then show ?thesis by (simp add: String_nat.simps [of n] digit_char_is_digit)
  next
    case False
    with 1 show ?thesis by (simp add: String_nat.simps [of n] digit_char_is_digit)
  qed
qed

lemma decimal_value_snoc: "decimal_value (s @ [c]) = 10 * decimal_value s + digit_value c"
  by (simp add: decimal_value_def)

lemma decimal_value_String_nat: "decimal_value (String_nat n) = n"
proof (induction n rule: String_nat.induct)
  case (1 n)
  show ?case
  proof (cases "n < 10")
    case True
    then show ?thesis
      by (simp add: String_nat.simps [of n] decimal_value_def digit_value_digit_char)
  next
    case False
    with 1 show ?thesis
      by (simp add: String_nat.simps [of n] decimal_value_snoc digit_value_digit_char)
  qed
qed

lemma length_String_nat_le: "0 < k \<Longrightarrow> n < 10 ^ k \<Longrightarrow> length (String_nat n) \<le> k"
proof (induction n arbitrary: k rule: String_nat.induct)
  case (1 n)
  show ?case
  proof (cases "n < 10")
    case True
    with 1 show ?thesis by (simp add: String_nat.simps [of n])
  next
    case False
    with 1 obtain j where k: "k = Suc j" by (cases k) auto
    with False 1 have j: "0 < j" by (cases j) auto
    from k 1 have "n div 10 < 10 ^ j" by (simp add: less_mult_imp_div_less mult.commute)
    with 1(1) [OF False j] have "length (String_nat (n div 10)) \<le> j" by simp
    with False k show ?thesis by (simp add: String_nat.simps [of n])
  qed
qed

lemma length_String_nat_ge: "10 ^ k \<le> n \<Longrightarrow> Suc k \<le> length (String_nat n)"
proof (induction n arbitrary: k rule: String_nat.induct)
  case (1 n)
  show ?case
  proof (cases "n < 10")
    case True
    have "k = 0"
    proof (cases k)
      case (Suc j)
      have "(1::nat) \<le> 10 ^ j" by simp
      with Suc 1(2) True show ?thesis by simp
    qed simp
    with True show ?thesis by (simp add: String_nat.simps [of n])
  next
    case False
    show ?thesis
    proof (cases k)
      case 0
      with False show ?thesis by (simp add: String_nat.simps [of n])
    next
      case (Suc j)
      with 1 have "10 ^ j \<le> n div 10" by (simp add: less_eq_div_iff_mult_less_eq mult.commute)
      with 1(1) [OF False] have "Suc j \<le> length (String_nat (n div 10))" by simp
      with False Suc show ?thesis by (simp add: String_nat.simps [of n])
    qed
  qed
qed

lemma decimal_value_zeros: "decimal_value (replicate k CHR ''0'' @ s) = decimal_value s"
proof -
  have "foldl (\<lambda>acc c. 10 * acc + digit_value c) 0 (replicate k CHR ''0'') = 0"
    by (induction k) (simp_all add: digit_value_def)
  then show ?thesis by (simp add: decimal_value_def)
qed


lemma String_int_nonneg: "0 \<le> i \<Longrightarrow> String_int i = String_nat (nat i)"
  by (simp add: String_int_def)

section \<open>Facts about the rounded product\<close>

lemma bit_length_le: "n < 2 ^ k \<Longrightarrow> bit_length n \<le> k"
proof (induction n arbitrary: k rule: bit_length.induct)
  case (1 n)
  show ?case
  proof (cases "n = 0")
    case True
    then show ?thesis by (simp add: bit_length.simps [of 0])
  next
    case False
    with 1(2) obtain j where k: "k = Suc j" by (cases k) auto
    with 1(2) have "n div 2 < 2 ^ j" by (simp add: less_mult_imp_div_less mult.commute)
    with 1(1) [OF False] have "bit_length (n div 2) \<le> j" by simp
    with False k show ?thesis by (simp add: bit_length.simps [of n])
  qed
qed

lemma round_half_even_le:
  assumes "0 < s"
  shows "round_half_even m s * 2 ^ s \<le> m + 2 ^ (s - 1)"
proof -
  let ?q = "m div 2 ^ s" and ?r = "m mod 2 ^ s" and ?h = "(2::nat) ^ (s - 1)"
  from assms have two: "(2::nat) ^ s = 2 * ?h" by (cases s) simp_all
  have m: "?q * 2 ^ s + ?r = m" by (rule div_mult_mod_eq)
  show ?thesis
  proof (cases "?r < ?h")
    case True
    with assms have "round_half_even m s = ?q" by (simp add: round_half_even_def Let_def)
    moreover from m have "?q * 2 ^ s \<le> m" by linarith
    ultimately show ?thesis by (simp only: trans_le_add1)
  next
    case False
    with assms have "round_half_even m s \<le> ?q + 1" by (simp add: round_half_even_def Let_def)
    then have "round_half_even m s * 2 ^ s \<le> (?q + 1) * 2 ^ s" by (rule mult_le_mono1)
    also have "\<dots> = ?q * 2 ^ s + 2 ^ s" by (simp add: algebra_simps)
    also from two have "\<dots> = ?q * 2 ^ s + 2 * ?h" by linarith
    also from False have "\<dots> \<le> (?q * 2 ^ s + ?r) + ?h" by simp
    also have "\<dots> = m + ?h" by (simp only: m)
    finally show ?thesis .
  qed
qed

lemma unit_double_value:
  assumes "unit_double d"
  shows "0 \<le> double_value d" "double_value d < 1"
proof -
  show "0 \<le> double_value d" by (simp add: double_value_def)
  show "double_value d < 1"
  proof (cases "mantissa d = 0")
    case True
    then show ?thesis by (simp add: double_value_def)
  next
    case False
    with assms have e: "exponent d < 0" and small: "mantissa d < 2 ^ nat (- exponent d)"
      by (simp_all add: unit_double_def)
    define k where "k = nat (- exponent d)"
    from e have ek: "exponent d = - int k" by (simp add: k_def)
    from small have "real (mantissa d) < 2 ^ k"
      unfolding k_def [symmetric] by (metis of_nat_less_iff of_nat_numeral of_nat_power)
    then have "real (mantissa d) / 2 ^ k < 1" by simp
    then show ?thesis
      by (simp add: double_value_def ek powr_minus powr_realpow divide_inverse)
  qed
qed

lemma round_half_even_ge:
  assumes "0 < s"
  shows "m \<le> round_half_even m s * 2 ^ s + 2 ^ (s - 1)"
proof -
  let ?q = "m div 2 ^ s" and ?r = "m mod 2 ^ s" and ?h = "(2::nat) ^ (s - 1)"
  have m: "?q * 2 ^ s + ?r = m" by (rule div_mult_mod_eq)
  show ?thesis
  proof (cases "?h < ?r \<or> (?r = ?h \<and> odd ?q)")
    case True
    with assms have eq: "round_half_even m s = ?q + 1"
      by (auto simp: round_half_even_def Let_def)
    have "(?q + 1) * 2 ^ s = ?q * 2 ^ s + 2 ^ s" by (simp add: algebra_simps)
    moreover have "?r < 2 ^ s" by simp
    ultimately have "m \<le> (?q + 1) * 2 ^ s" using m by linarith
    then have "m \<le> round_half_even m s * 2 ^ s" by (simp only: eq)
    then show ?thesis by (rule trans_le_add1)
  next
    case False
    with assms have eq: "round_half_even m s = ?q"
      by (auto simp: round_half_even_def Let_def)
    from False have "?r \<le> ?h" by auto
    with m have "m \<le> ?q * 2 ^ s + ?h" by linarith
    then show ?thesis by (simp only: eq)
  qed
qed

lemma Math_floor_double_times_less:
  assumes "unit_double d"
  shows "0 \<le> Math_floor (double_times d 999999)" "Math_floor (double_times d 999999) < 999999"
proof -
  show "0 \<le> Math_floor (double_times d 999999)" by (simp add: Math_floor_def)
  let ?m = "mantissa d * 999999"
  let ?s = "bit_length ?m - 53"
  let ?q = "round_half_even ?m ?s"
  have res: "double_times d 999999 = \<lparr>mantissa = ?q, exponent = exponent d + int ?s\<rparr>"
    by (simp add: double_times_def Let_def)
  show "Math_floor (double_times d 999999) < 999999"
  proof (cases "mantissa d = 0")
    case True
    then have "?m = 0" by simp
    then have "?q = 0" by (simp add: round_half_even_def bit_length.simps [of 0])
    then show ?thesis by (simp add: res Math_floor_def)
  next
    case False
    with assms have e: "exponent d < 0" and small: "mantissa d < 2 ^ nat (- exponent d)"
      and m53: "mantissa d < 2 ^ 53"
      by (simp_all add: unit_double_def)
    define k where "k = nat (- exponent d)"
    from e have ek: "exponent d = - int k" by (simp add: k_def)
    from small have "mantissa d + 1 \<le> 2 ^ k" by (simp add: k_def)
    then have "(mantissa d + 1) * 999999 \<le> 2 ^ k * 999999" by (rule mult_le_mono1)
    then have room: "?m + 999999 \<le> 999999 * 2 ^ k" by (simp add: algebra_simps)
    have "?m < 2 ^ 53 * 2 ^ 20"
      using m53 by (intro mult_strict_mono) simp_all
    then have "?m < 2 ^ 73" by simp
    then have "bit_length ?m \<le> 73" by (rule bit_length_le)
    then have s20: "?s \<le> 20" by simp
    have q: "?q * 2 ^ ?s < 999999 * 2 ^ k"
    proof (cases "?s = 0")
      case True
      then have "?q = ?m" by (simp add: round_half_even_def)
      with True room show ?thesis by simp
    next
      case False
      then have pos: "0 < ?s" by simp
      from s20 have "?s - 1 \<le> 19" by simp
      then have "(2::nat) ^ (?s - 1) \<le> 2 ^ 19" by (rule power_increasing) simp
      then have "(2::nat) ^ (?s - 1) < 999999" by simp
      with round_half_even_le [OF pos, of ?m] have "?q * 2 ^ ?s < ?m + 999999" by linarith
      with room show ?thesis by linarith
    qed
    show ?thesis
    proof (cases "k \<le> ?s")
      case True
      then have "(2::nat) ^ ?s = 2 ^ (?s - k) * 2 ^ k" by (simp add: power_add [symmetric])
      with q have "(?q * 2 ^ (?s - k)) * 2 ^ k < 999999 * 2 ^ k" by (simp add: mult.assoc)
      then have "?q * 2 ^ (?s - k) < 999999" by simp
      then have "int (?q * 2 ^ (?s - k)) < 999999" by linarith
      moreover from True have "nat (int ?s - int k) = ?s - k" by simp
      moreover from True have "Math_floor (double_times d 999999)
          = int (?q * 2 ^ nat (int ?s - int k))"
        unfolding res by (simp add: Math_floor_def ek)
      ultimately show ?thesis by (simp only:)
    next
      case False
      then have "(2::nat) ^ k = 2 ^ (k - ?s) * 2 ^ ?s" by (simp add: power_add [symmetric])
      with q have "?q * 2 ^ ?s < (999999 * 2 ^ (k - ?s)) * 2 ^ ?s" by (simp add: mult.assoc)
      then have "?q < 999999 * 2 ^ (k - ?s)" by simp
      then have "?q div 2 ^ (k - ?s) < 999999" by (rule less_mult_imp_div_less)
      then have "int (?q div 2 ^ (k - ?s)) < 999999" by linarith
      moreover from False have "nat (int k - int ?s) = k - ?s" by simp
      moreover from False have "Math_floor (double_times d 999999)
          = int (?q div 2 ^ nat (int k - int ?s))"
        unfolding res by (simp add: Math_floor_def ek)
      ultimately show ?thesis by (simp only:)
    qed
  qed
qed

lemma Math_floor_example:
  "Math_floor (double_times \<lparr>mantissa = 5764607523034235, exponent = - 57\<rparr> 999999) = 39999"
proof -
  have "bit_length 5764601758426711965765 = 73" by (simp add: bit_length.simps)
  then show ?thesis
    by (simp add: Math_floor_def double_times_def Let_def round_half_even_def)
qed

lemma Math_floor_example_rounding:
  "Math_floor (double_times \<lparr>mantissa = 2702162478584776, exponent = - 52\<rparr> 999999) = 600000"
proof -
  have "bit_length 2702159776422297415224 = 72" by (simp add: bit_length.simps)
  then show ?thesis
    by (simp add: Math_floor_def double_times_def Let_def round_half_even_def)
qed


section \<open>The parts of a reference number\<close>

lemma random_component:
  assumes "unit_double u"
  defines "d \<equiv> padStart (String_int (Math_floor (double_times u 999999))) 6 CHR ''0''"
  shows "length d = 6" "\<forall>c \<in> set d. is_digit c" "decimal_value d < 999999"
    "int (decimal_value d) = Math_floor (double_times u 999999)"
proof -
  let ?i = "Math_floor (double_times u 999999)"
  from assms(1) have nonneg: "0 \<le> ?i" by (rule Math_floor_double_times_less)
  from assms(1) have "?i < 999999" by (rule Math_floor_double_times_less)
  with nonneg have small: "nat ?i < 999999" by linarith
  have "(999999::nat) < 10 ^ 6" by simp
  with small have "nat ?i < 10 ^ 6" by (rule less_trans)
  then have len: "length (String_nat (nat ?i)) \<le> 6"
    by (intro length_String_nat_le) simp_all
  have d: "d = replicate (6 - length (String_nat (nat ?i))) CHR ''0'' @ String_nat (nat ?i)"
    by (simp add: d_def padStart_def String_int_nonneg [OF nonneg])
  from len show "length d = 6" by (simp add: d)
  show "\<forall>c \<in> set d. is_digit c"
  proof
    fix c assume "c \<in> set d"
    then have "c = CHR ''0'' \<or> c \<in> set (String_nat (nat ?i))" by (auto simp: d)
    moreover have "is_digit CHR ''0''" by (simp add: is_digit_def)
    ultimately show "is_digit c" using String_nat_digits [of "nat ?i"] by blast
  qed
  have val: "decimal_value d = nat ?i"
    by (simp add: d decimal_value_zeros decimal_value_String_nat)
  with small show "decimal_value d < 999999" by simp
  from val nonneg show "int (decimal_value d) = ?i" by simp
qed

lemma year_component:
  assumes "1000 \<le> y" "y \<le> 9999"
  shows "length (String_int y) = 4" "\<forall>c \<in> set (String_int y). is_digit c"
    "int (decimal_value (String_int y)) = y"
proof -
  from assms have s: "String_int y = String_nat (nat y)" by (simp add: String_int_nonneg)
  from assms have "nat y < 10 ^ 4" by simp
  then have "length (String_nat (nat y)) \<le> 4" by (intro length_String_nat_le) simp_all
  moreover from assms have "10 ^ 3 \<le> nat y" by simp
  then have "Suc 3 \<le> length (String_nat (nat y))" by (rule length_String_nat_ge)
  ultimately show "length (String_int y) = 4" by (simp add: s)
  show "\<forall>c \<in> set (String_int y). is_digit c" by (simp add: s String_nat_digits)
  from assms show "int (decimal_value (String_int y)) = y" by (simp add: s decimal_value_String_nat)
qed

lemma createBooking_fst:
  "fst (createBooking e p s) =
     \<lparr>booking_id = randomUUID e, referenceNumber = newReferenceNumber e,
      experienceId = ins_experienceId p, firstName = ins_firstName p,
      lastName = ins_lastName p, email = ins_email p, phone = ins_phone p,
      checkinDate = ins_checkinDate p, checkoutDate = ins_checkoutDate p,
      participants = ins_participants p, specialRequests = or_null (ins_specialRequests p),
      totalAmount = ins_totalAmount p, paymentStatus = Some ''pending'',
      stripePaymentIntentId = None, createdAt = dateNow e\<rparr>"
  by (simp add: createBooking_def Let_def)

lemma createBooking_snd:
  "snd (createBooking e p s) =
     s\<lparr>bookings := map_set (bookings s) (randomUUID e) (fst (createBooking e p s))\<rparr>"
  by (simp add: createBooking_def Let_def)

section \<open>createBooking\<close>

text \<open>
  C1. For every validated payload, with \<open>Math.random()\<close> a double in \<open>[0, 1)\<close> and a
  clock whose year has four digits, \<open>createBooking\<close> returns a booking whose reference
  number is \<open>SM-\<close>, the four digits of the current year, \<open>-\<close>, and six digits whose
  number, the integer part of the rounded double product, is below 999999; its payment
  status is \<open>pending\<close>, its payment-intent id is absent, its \<open>specialRequests\<close> is absent
  when the payload has none, and the booking is stored under its identifier.
\<close>

theorem createBooking_result:
  assumes "unit_double (mathRandom e)" "1000 \<le> fullYear e" "fullYear e \<le> 9999"
    and "createBooking e p s = (b, s')"
  shows "(\<exists>y n. referenceNumber b = ''SM-'' @ y @ ''-'' @ n
            \<and> length y = 4 \<and> (\<forall>c \<in> set y. is_digit c) \<and> int (decimal_value y) = fullYear e
            \<and> length n = 6 \<and> (\<forall>c \<in> set n. is_digit c) \<and> decimal_value n < 999999)
         \<and> paymentStatus b = Some ''pending''
         \<and> stripePaymentIntentId b = None
         \<and> (ins_specialRequests p = Undefined \<longrightarrow> specialRequests b = None)
         \<and> booking_id b = randomUUID e
         \<and> getBooking s' (randomUUID e) = Some b"
proof (intro conjI)
  from assms(4) have b: "b = fst (createBooking e p s)" and s': "s' = snd (createBooking e p s)"
    by simp_all
  let ?y = "String_int (fullYear e)"
  let ?n = "padStart (String_int (Math_floor (double_times (mathRandom e) 999999))) 6 CHR ''0''"
  have ref: "referenceNumber b = ''SM-'' @ ?y @ ''-'' @ ?n"
    unfolding b createBooking_fst by (simp add: newReferenceNumber_def)
  show "\<exists>y n. referenceNumber b = ''SM-'' @ y @ ''-'' @ n
            \<and> length y = 4 \<and> (\<forall>c \<in> set y. is_digit c) \<and> int (decimal_value y) = fullYear e
            \<and> length n = 6 \<and> (\<forall>c \<in> set n. is_digit c) \<and> decimal_value n < 999999"
  proof (rule exI [of _ ?y], rule exI [of _ ?n], intro conjI)
    show "referenceNumber b = ''SM-'' @ ?y @ ''-'' @ ?n" by (rule ref)
    show "length ?y = 4" by (rule year_component(1) [OF assms(2,3)])
    show "\<forall>c \<in> set ?y. is_digit c" by (rule year_component(2) [OF assms(2,3)])
    show "int (decimal_value ?y) = fullYear e" by (rule year_component(3) [OF assms(2,3)])
    show "length ?n = 6" by (rule random_component(1) [OF assms(1)])
    show "\<forall>c \<in> set ?n. is_digit c" by (rule random_component(2) [OF assms(1)])
    show "decimal_value ?n < 999999" by (rule random_component(3) [OF assms(1)])
  qed
  show "paymentStatus b = Some ''pending''" unfolding b createBooking_fst by simp
  show "stripePaymentIntentId b = None" unfolding b createBooking_fst by simp
  show "ins_specialRequests p = Undefined \<longrightarrow> specialRequests b = None"
    unfolding b createBooking_fst by simp
  show "booking_id b = randomUUID e" unfolding b createBooking_fst by simp
  show "getBooking s' (randomUUID e) = Some b"
    unfolding s' createBooking_snd by (simp add: b getBooking_def map_get_map_set)
qed


theorem createBooking_result_witness:
  "unit_double (mathRandom example_env)
   \<and> 1000 \<le> fullYear example_env \<and> fullYear example_env \<le> 9999
   \<and> referenceNumber (fst (createBooking example_env example_payload MemStorage))
       = ''SM-2025-039999''
   \<and> (\<exists>y n. referenceNumber (fst (createBooking example_env example_payload MemStorage))
                = ''SM-'' @ y @ ''-'' @ n
            \<and> length y = 4 \<and> (\<forall>c \<in> set y. is_digit c)
            \<and> int (decimal_value y) = fullYear example_env
            \<and> length n = 6 \<and> (\<forall>c \<in> set n. is_digit c) \<and> decimal_value n < 999999)
   \<and> paymentStatus (fst (createBooking example_env example_payload MemStorage))
       = Some ''pending''
   \<and> stripePaymentIntentId (fst (createBooking example_env example_payload MemStorage)) = None
   \<and> specialRequests (fst (createBooking example_env example_payload MemStorage)) = None
   \<and> getBooking (snd (createBooking example_env example_payload MemStorage))
         (randomUUID example_env)
       = Some (fst (createBooking example_env example_payload MemStorage))"
proof -
  have h1: "unit_double (mathRandom example_env)"
    by (simp add: example_env_def unit_double_def)
  have h3: "1000 \<le> fullYear example_env" and h4: "fullYear example_env \<le> 9999"
    by (simp_all add: example_env_def)
  have h5: "createBooking example_env example_payload MemStorage
      = (fst (createBooking example_env example_payload MemStorage),
         snd (createBooking example_env example_payload MemStorage))"
    by simp
  have u: "ins_specialRequests example_payload = Undefined"
    by (simp add: example_payload_def)
  have r: "referenceNumber (fst (createBooking example_env example_payload MemStorage))
      = ''SM-2025-039999''"
  proof -
    have "String_int 2025 = ''2025''"
      by (simp add: String_int_def String_nat.simps digit_char_def)
    moreover have "String_int 39999 = ''39999''"
      by (simp add: String_int_def String_nat.simps digit_char_def)
    moreover have "padStart ''39999'' 6 CHR ''0'' = ''039999''"
      by (simp add: padStart_def)
    ultimately show ?thesis
      by (simp add: createBooking_fst newReferenceNumber_def example_env_def
          Math_floor_example)
  qed
  from createBooking_result [OF h1 h3 h4 h5] u r h1 h3 h4 show ?thesis
    by blast
qed

section \<open>The example store\<close>

lemma String_int_example_year: "String_int 2025 = ''2025''"
  by (simp add: String_int_def String_nat.simps digit_char_def)

lemma String_int_example_now: "String_int 1735725600000 = ''1735725600000''"
  by (simp add: String_int_def String_nat.simps digit_char_def)

lemma example_reference: "newReferenceNumber example_env = ''SM-2025-039999''"
proof -
  have "String_int 39999 = ''39999''"
    by (simp add: String_int_def String_nat.simps digit_char_def)
  moreover have "padStart ''39999'' 6 CHR ''0'' = ''039999''"
    by (simp add: padStart_def)
  ultimately show ?thesis
    by (simp add: newReferenceNumber_def example_env_def String_int_example_year
        Math_floor_example)
qed

text \<open>
  At the draw \<open>2702162478584776 / 2 ^ 52\<close> the product rounds up to 600000, and the
  reference number holds 600000 where the integer part of the exact product is 599999.
\<close>

lemma example_reference_rounding:
  "newReferenceNumber example_env_rounding = ''SM-2025-600000''"
proof -
  have "String_int 600000 = ''600000''"
    by (simp add: String_int_def String_nat.simps digit_char_def)
  moreover have "padStart ''600000'' 6 CHR ''0'' = ''600000''"
    by (simp add: padStart_def)
  ultimately show ?thesis
    by (simp add: newReferenceNumber_def example_env_rounding_def String_int_example_year
        Math_floor_example_rounding)
qed

lemma parse_example_body: "parse example_body = Inr example_payload"
  by (simp add: parse_def example_body_def example_payload_def insertBookingSchema_def
      field_issues_def check_value_def)

lemma MemStorage_bookings: "bookings MemStorage = []"
  by (simp add: MemStorage_def initializeExperiences_def)

lemma example_store_bookings: "bookings example_store = [(example_id, example_booking)]"
proof -
  have 1: "snd (post_bookings example_env example_body MemStorage)
      = MemStorage\<lparr>bookings := [(example_id,
            example_booking\<lparr>paymentStatus := Some ''pending'', stripePaymentIntentId := None\<rparr>)]\<rparr>"
    by (simp add: post_bookings_def parse_example_body split_def createBooking_snd
        createBooking_fst example_reference MemStorage_bookings example_booking_def)
      (simp add: example_env_def example_payload_def example_id_def)
  show ?thesis
    unfolding example_store_def
    by (simp add: 1 create_payment_intent_def updateBookingPaymentStatus_def map_get_def
        Let_def truthy_string_def example_id_def example_booking_def)
      (simp add: example_env_def String_int_example_now)
qed

lemma updateBookingPaymentStatus_absent:
  "getBooking s i = None \<Longrightarrow> updateBookingPaymentStatus i status p s = (None, s)"
  by (simp add: updateBookingPaymentStatus_def getBooking_def)

lemma updateBookingPaymentStatus_present:
  "getBooking s i = Some b \<Longrightarrow>
   updateBookingPaymentStatus i status p s =
     (Some (b\<lparr>paymentStatus := Some status,
               stripePaymentIntentId := or_else p (stripePaymentIntentId b)\<rparr>),
      s\<lparr>bookings := map_set (bookings s) i
           (b\<lparr>paymentStatus := Some status,
              stripePaymentIntentId := or_else p (stripePaymentIntentId b)\<rparr>)\<rparr>)"
  by (simp add: updateBookingPaymentStatus_def getBooking_def Let_def)

lemma getBooking_map_set:
  "getBooking (s\<lparr>bookings := map_set (bookings s) i b\<rparr>) j
     = (if j = i then Some b else getBooking s j)"
  by (simp add: getBooking_def map_get_map_set)

lemma getBooking_example_store: "getBooking example_store example_id = Some example_booking"
  by (simp add: getBooking_def map_get_def example_store_bookings)

section \<open>updateBookingPaymentStatus\<close>

text \<open>
  C2, as amended. \<open>updateBookingPaymentStatus\<close> returns absent and leaves the store as it
  is when no booking has the identifier. When one has, it returns a record whose payment
  status is the given status, whatever the status was, and whose payment-intent id is the
  given one when a non-empty one is given, and the prior one when none or the empty string
  is given; the record is stored under the same identifier.
\<close>

theorem updateBookingPaymentStatus_result:
  "(getBooking s i = None \<longrightarrow> updateBookingPaymentStatus i status p s = (None, s))
   \<and> (\<forall>b. getBooking s i = Some b \<longrightarrow>
         (\<exists>b' s'. updateBookingPaymentStatus i status p s = (Some b', s')
            \<and> paymentStatus b' = Some status
            \<and> (\<forall>x. p = Some x \<and> x \<noteq> [] \<longrightarrow> stripePaymentIntentId b' = Some x)
            \<and> (p = None \<or> p = Some [] \<longrightarrow> stripePaymentIntentId b' = stripePaymentIntentId b)
            \<and> getBooking s' i = Some b'))"
proof (intro conjI allI impI)
  assume "getBooking s i = None"
  then show "updateBookingPaymentStatus i status p s = (None, s)"
    by (rule updateBookingPaymentStatus_absent)
next
  fix b
  assume b: "getBooking s i = Some b"
  let ?b' = "b\<lparr>paymentStatus := Some status,
                stripePaymentIntentId := or_else p (stripePaymentIntentId b)\<rparr>"
  let ?s' = "s\<lparr>bookings := map_set (bookings s) i ?b'\<rparr>"
  show "\<exists>b' s'. updateBookingPaymentStatus i status p s = (Some b', s')
            \<and> paymentStatus b' = Some status
            \<and> (\<forall>x. p = Some x \<and> x \<noteq> [] \<longrightarrow> stripePaymentIntentId b' = Some x)
            \<and> (p = None \<or> p = Some [] \<longrightarrow> stripePaymentIntentId b' = stripePaymentIntentId b)
            \<and> getBooking s' i = Some b'"
  proof (rule exI [of _ ?b'], rule exI [of _ ?s'], intro conjI)
    show "updateBookingPaymentStatus i status p s = (Some ?b', ?s')"
      by (rule updateBookingPaymentStatus_present [OF b])
    show "paymentStatus ?b' = Some status" by simp
    show "\<forall>x. p = Some x \<and> x \<noteq> [] \<longrightarrow> stripePaymentIntentId ?b' = Some x"
      by (simp add: truthy_string_def)
    show "p = None \<or> p = Some [] \<longrightarrow> stripePaymentIntentId ?b' = stripePaymentIntentId b"
      by (auto simp: truthy_string_def)
    show "getBooking ?s' i = Some ?b'" by (simp add: getBooking_map_set)
  qed
qed

theorem updateBookingPaymentStatus_result_witness:
  "getBooking example_store example_id = Some example_booking
   \<and> getBooking example_store ''no-such-id'' = None
   \<and> updateBookingPaymentStatus ''no-such-id'' ''completed'' (Some ''pi_1'') example_store
       = (None, example_store)
   \<and> (\<exists>b' s'. updateBookingPaymentStatus example_id ''completed'' (Some ''pi_1'') example_store
                = (Some b', s')
          \<and> paymentStatus b' = Some ''completed''
          \<and> stripePaymentIntentId b' = Some ''pi_1''
          \<and> getBooking s' example_id = Some b')
   \<and> (\<exists>b' s'. updateBookingPaymentStatus example_id ''completed'' None example_store
                = (Some b', s')
          \<and> paymentStatus b' = Some ''completed''
          \<and> stripePaymentIntentId b' = Some ''pi_mock_1735725600000''
          \<and> getBooking s' example_id = Some b')"
proof -
  have present: "getBooking example_store example_id = Some example_booking"
    by (rule getBooking_example_store)
  have absent: "getBooking example_store ''no-such-id'' = None"
    by (simp add: getBooking_def map_get_def example_store_bookings example_id_def)
  have prior: "stripePaymentIntentId example_booking = Some ''pi_mock_1735725600000''"
    by (simp add: example_booking_def)
  from updateBookingPaymentStatus_result
         [of example_store "''no-such-id''" "''completed''" "Some ''pi_1''"] absent
  have 1: "updateBookingPaymentStatus ''no-such-id'' ''completed'' (Some ''pi_1'') example_store
      = (None, example_store)"
    by blast
  from updateBookingPaymentStatus_result
         [of example_store example_id "''completed''" "Some ''pi_1''"] present
  have 2: "\<exists>b' s'. updateBookingPaymentStatus example_id ''completed'' (Some ''pi_1'')
                example_store = (Some b', s')
          \<and> paymentStatus b' = Some ''completed''
          \<and> stripePaymentIntentId b' = Some ''pi_1''
          \<and> getBooking s' example_id = Some b'"
    by fastforce
  from updateBookingPaymentStatus_result
         [of example_store example_id "''completed''" None] present prior
  have 3: "\<exists>b' s'. updateBookingPaymentStatus example_id ''completed'' None example_store
                = (Some b', s')
          \<and> paymentStatus b' = Some ''completed''
          \<and> stripePaymentIntentId b' = Some ''pi_mock_1735725600000''
          \<and> getBooking s' example_id = Some b'"
    by fastforce
  from present absent 1 2 3 show ?thesis by blast
qed

text \<open>
  C2 as stated fails for a payment-intent id that is supplied and empty: the stored booking
  has the id \<open>pi_mock_1735725600000\<close>, the call supplies \<open>""\<close>, and the record returned
  keeps the prior id and does not hold the supplied one.
\<close>

theorem updateBookingPaymentStatus_supplied_counterexample:
  "getBooking example_store example_id = Some example_booking
   \<and> stripePaymentIntentId example_booking = Some ''pi_mock_1735725600000''
   \<and> map_option stripePaymentIntentId
        (fst (updateBookingPaymentStatus example_id ''completed'' (Some '''') example_store))
       = Some (Some ''pi_mock_1735725600000'')
   \<and> map_option stripePaymentIntentId
        (fst (updateBookingPaymentStatus example_id ''completed'' (Some '''') example_store))
       \<noteq> Some (Some '''')"
  by (simp add: getBooking_example_store
      updateBookingPaymentStatus_present [OF getBooking_example_store] truthy_string_def)
    (simp add: example_booking_def)

text \<open>
  C10. For an existing booking and any status, a payment-intent id that is the empty string
  keeps the booking's prior payment-intent id: the call does what the call without the
  argument does.
\<close>

theorem updateBookingPaymentStatus_empty_intent:
  assumes "getBooking s i = Some b"
  shows "\<exists>b' s'. updateBookingPaymentStatus i status (Some '''') s = (Some b', s')
           \<and> stripePaymentIntentId b' = stripePaymentIntentId b
           \<and> getBooking s' i = Some b'
           \<and> updateBookingPaymentStatus i status None s = (Some b', s')"
  by (simp add: updateBookingPaymentStatus_present [OF assms] truthy_string_def
      getBooking_map_set)

theorem updateBookingPaymentStatus_empty_intent_witness:
  "getBooking example_store example_id = Some example_booking
   \<and> (\<exists>b' s'. updateBookingPaymentStatus example_id ''failed'' (Some '''') example_store
                  = (Some b', s')
           \<and> stripePaymentIntentId b' = Some ''pi_mock_1735725600000''
           \<and> getBooking s' example_id = Some b'
           \<and> updateBookingPaymentStatus example_id ''failed'' None example_store = (Some b', s'))"
proof -
  have prior: "stripePaymentIntentId example_booking = Some ''pi_mock_1735725600000''"
    by (simp add: example_booking_def)
  from updateBookingPaymentStatus_empty_intent [OF getBooking_example_store, of "''failed''"]
    prior getBooking_example_store
  show ?thesis by fastforce
qed

section \<open>Lookup by reference number\<close>












section \<open>What an update leaves alone\<close>




section \<open>Reference numbers are not checked for uniqueness\<close>

text \<open>
  C3. \<open>createBooking\<close> takes the reference number from the current year and the random
  draw alone, whatever the payload and the bookings already stored. So when two calls with
  different identifiers read the same year and draw the same number, the store then holds
  two bookings, under the two identifiers, with the same reference number.
\<close>

theorem createBooking_reference_collision:
  assumes "fullYear e1 = fullYear e2" and "mathRandom e1 = mathRandom e2"
    and "randomUUID e1 \<noteq> randomUUID e2"
    and "createBooking e1 p1 s = (b1, s1)" and "createBooking e2 p2 s1 = (b2, s2)"
  shows "(\<forall>p' s'. referenceNumber (fst (createBooking e2 p' s')) = referenceNumber b1)
         \<and> referenceNumber b2 = referenceNumber b1
         \<and> booking_id b2 \<noteq> booking_id b1
         \<and> getBooking s2 (randomUUID e1) = Some b1
         \<and> getBooking s2 (randomUUID e2) = Some b2"
proof -
  from assms(4) have b1: "b1 = fst (createBooking e1 p1 s)"
    and s1: "s1 = snd (createBooking e1 p1 s)" by simp_all
  from assms(5) have b2: "b2 = fst (createBooking e2 p2 s1)"
    and s2: "s2 = snd (createBooking e2 p2 s1)" by simp_all
  from assms(1,2) have n: "newReferenceNumber e2 = newReferenceNumber e1"
    by (simp add: newReferenceNumber_def)
  have r1: "referenceNumber b1 = newReferenceNumber e1"
    unfolding b1 createBooking_fst by simp
  have "\<forall>p' s'. referenceNumber (fst (createBooking e2 p' s')) = referenceNumber b1"
    unfolding r1 createBooking_fst by (simp add: n)
  moreover have "referenceNumber b2 = referenceNumber b1"
    unfolding r1 unfolding b2 createBooking_fst by (simp add: n)
  moreover from assms(3) have "booking_id b2 \<noteq> booking_id b1"
    unfolding b1 b2 createBooking_fst by simp
  moreover have g1: "getBooking s1 (randomUUID e1) = Some b1"
    unfolding s1 createBooking_snd by (simp add: getBooking_map_set b1)
  from assms(3) have "getBooking s2 (randomUUID e1) = getBooking s1 (randomUUID e1)"
    unfolding s2 createBooking_snd by (simp add: getBooking_map_set)
  with g1 have "getBooking s2 (randomUUID e1) = Some b1" by simp
  moreover have "getBooking s2 (randomUUID e2) = Some b2"
    unfolding s2 createBooking_snd by (simp add: getBooking_map_set b2)
  ultimately show ?thesis by blast
qed

theorem createBooking_reference_collision_witness:
  "fullYear example_env = fullYear example_env2
   \<and> mathRandom example_env = mathRandom example_env2
   \<and> randomUUID example_env \<noteq> randomUUID example_env2
   \<and> referenceNumber (fst (createBooking example_env example_payload MemStorage))
       = ''SM-2025-039999''
   \<and> referenceNumber (fst (createBooking example_env2 example_payload
         (snd (createBooking example_env example_payload MemStorage))))
       = referenceNumber (fst (createBooking example_env example_payload MemStorage))
   \<and> booking_id (fst (createBooking example_env2 example_payload
         (snd (createBooking example_env example_payload MemStorage))))
       \<noteq> booking_id (fst (createBooking example_env example_payload MemStorage))
   \<and> getBooking (snd (createBooking example_env2 example_payload
         (snd (createBooking example_env example_payload MemStorage))))
         (randomUUID example_env)
       = Some (fst (createBooking example_env example_payload MemStorage))
   \<and> getBooking (snd (createBooking example_env2 example_payload
         (snd (createBooking example_env example_payload MemStorage))))
         (randomUUID example_env2)
       = Some (fst (createBooking example_env2 example_payload
           (snd (createBooking example_env example_payload MemStorage))))"
proof -
  let ?b1 = "fst (createBooking example_env example_payload MemStorage)"
  let ?s1 = "snd (createBooking example_env example_payload MemStorage)"
  let ?b2 = "fst (createBooking example_env2 example_payload ?s1)"
  let ?s2 = "snd (createBooking example_env2 example_payload ?s1)"
  have h1: "fullYear example_env = fullYear example_env2"
    and h2: "mathRandom example_env = mathRandom example_env2"
    and h3: "randomUUID example_env \<noteq> randomUUID example_env2"
    by (simp_all add: example_env_def example_env2_def)
  have h4: "createBooking example_env example_payload MemStorage = (?b1, ?s1)" by simp
  have h5: "createBooking example_env2 example_payload ?s1 = (?b2, ?s2)" by simp
  have r: "referenceNumber ?b1 = ''SM-2025-039999''"
    by (simp add: createBooking_fst example_reference)
  from createBooking_reference_collision [OF h1 h2 h3 h4 h5] h1 h2 h3 r
  show ?thesis by blast
qed

lemma ids_nonempty_example_store: "ids_nonempty example_store"
  by (simp add: ids_nonempty_def example_store_bookings example_id_def)

lemma ids_nonempty_getBooking: "ids_nonempty s \<Longrightarrow> getBooking s i = Some b \<Longrightarrow> i \<noteq> []"
  by (auto simp: ids_nonempty_def getBooking_def map_get_def dest!: map_of_SomeD)

lemma amount_rejected_iff:
  "amount_rejected amount \<longleftrightarrow> amount = None \<or> (\<exists>a. amount = Some a \<and> a \<le> 0)"
  by (cases amount) auto

section \<open>POST /api/create-payment-intent\<close>

text \<open>
  C6. The handler answers 400 with the message \<open>Valid amount is required\<close> exactly when
  the amount is missing or at most 0, and then the store is as before. Otherwise it answers
  200 with a client secret and a payment-intent id that holds the current time in
  milliseconds; and when \<open>bookingId\<close> names an existing booking, that booking then has
  the payment status \<open>processing\<close> and the payment-intent id that was returned.
\<close>

theorem create_payment_intent_result:
  "(status_code (fst (create_payment_intent e amount bookingId s)) = 400
      \<longleftrightarrow> amount = None \<or> (\<exists>a. amount = Some a \<and> a \<le> 0))
   \<and> (amount = None \<or> (\<exists>a. amount = Some a \<and> a \<le> 0) \<longrightarrow>
        create_payment_intent e amount bookingId s
          = (Response 400 (MessageBody ''Valid amount is required''), s))
   \<and> (\<forall>a. amount = Some a \<and> 0 < a \<longrightarrow>
        fst (create_payment_intent e amount bookingId s)
          = Response 200
              (PaymentIntentBody (''pi_mock_'' @ String_int (dateNow2 e) @ ''_secret_mock'')
                 (''pi_mock_'' @ String_int (dateNow e))))
   \<and> (\<forall>a i b. amount = Some a \<and> 0 < a \<and> bookingId = Some i \<and> ids_nonempty s
          \<and> getBooking s i = Some b \<longrightarrow>
        getBooking (snd (create_payment_intent e amount bookingId s)) i
          = Some (b\<lparr>paymentStatus := Some ''processing'',
                    stripePaymentIntentId := Some (''pi_mock_'' @ String_int (dateNow e))\<rparr>))"
proof (intro conjI allI impI)
  show "status_code (fst (create_payment_intent e amount bookingId s)) = 400
      \<longleftrightarrow> amount = None \<or> (\<exists>a. amount = Some a \<and> a \<le> 0)"
    unfolding amount_rejected_iff [symmetric]
    by (simp add: create_payment_intent_def Let_def)
next
  assume "amount = None \<or> (\<exists>a. amount = Some a \<and> a \<le> 0)"
  then have "amount_rejected amount" by (simp add: amount_rejected_iff)
  then show "create_payment_intent e amount bookingId s
          = (Response 400 (MessageBody ''Valid amount is required''), s)"
    by (simp add: create_payment_intent_def)
next
  fix a
  assume "amount = Some a \<and> 0 < a"
  then show "fst (create_payment_intent e amount bookingId s)
          = Response 200
              (PaymentIntentBody (''pi_mock_'' @ String_int (dateNow2 e) @ ''_secret_mock'')
                 (''pi_mock_'' @ String_int (dateNow e)))"
    by (simp add: create_payment_intent_def Let_def)
next
  fix a i b
  assume h: "amount = Some a \<and> 0 < a \<and> bookingId = Some i \<and> ids_nonempty s
          \<and> getBooking s i = Some b"
  then have i: "i \<noteq> []" by (blast dest: ids_nonempty_getBooking)
  from h have b: "getBooking s i = Some b" by simp
  from h i show "getBooking (snd (create_payment_intent e amount bookingId s)) i
          = Some (b\<lparr>paymentStatus := Some ''processing'',
                    stripePaymentIntentId := Some (''pi_mock_'' @ String_int (dateNow e))\<rparr>)"
    by (simp add: create_payment_intent_def Let_def truthy_string_def
        updateBookingPaymentStatus_present [OF b] getBooking_map_set)
qed

lemma String_int_example_now3: "String_int 1735732800000 = ''1735732800000''"
  by (simp add: String_int_def String_nat.simps digit_char_def)

theorem create_payment_intent_result_witness:
  "create_payment_intent example_env3 (Some 0) (Some example_id) example_store
     = (Response 400 (MessageBody ''Valid amount is required''), example_store)
   \<and> status_code (fst (create_payment_intent example_env3 (Some 240) (Some example_id)
        example_store)) \<noteq> 400
   \<and> fst (create_payment_intent example_env3 (Some 240) (Some example_id) example_store)
       = Response 200 (PaymentIntentBody ''pi_mock_1735732800001_secret_mock''
           ''pi_mock_1735732800000'')
   \<and> ids_nonempty example_store
   \<and> getBooking example_store example_id = Some example_booking
   \<and> getBooking (snd (create_payment_intent example_env3 (Some 240) (Some example_id)
        example_store)) example_id
       = Some (example_booking\<lparr>paymentStatus := Some ''processing'',
                 stripePaymentIntentId := Some ''pi_mock_1735732800000''\<rparr>)"
proof -
  have n1: "String_int (dateNow example_env3) = ''1735732800000''"
    by (simp add: example_env3_def String_int_example_now3)
  have n2: "String_int (dateNow2 example_env3) = ''1735732800001''"
    by (simp add: example_env3_def String_int_def String_nat.simps digit_char_def)
  note a = create_payment_intent_result
    [of example_env3 "Some 0" "Some example_id" example_store]
  note b = create_payment_intent_result
    [of example_env3 "Some 240" "Some example_id" example_store]
  from a have 1: "create_payment_intent example_env3 (Some 0) (Some example_id) example_store
     = (Response 400 (MessageBody ''Valid amount is required''), example_store)"
    by simp
  from b have 2: "status_code (fst (create_payment_intent example_env3 (Some 240)
      (Some example_id) example_store)) \<noteq> 400"
    by simp
  from b have 3: "fst (create_payment_intent example_env3 (Some 240) (Some example_id)
      example_store)
       = Response 200 (PaymentIntentBody ''pi_mock_1735732800001_secret_mock''
           ''pi_mock_1735732800000'')"
    by (simp add: n1 n2)
  from b ids_nonempty_example_store getBooking_example_store
  have 4: "getBooking (snd (create_payment_intent example_env3 (Some 240) (Some example_id)
        example_store)) example_id
       = Some (example_booking\<lparr>paymentStatus := Some ''processing'',
                 stripePaymentIntentId := Some ''pi_mock_1735732800000''\<rparr>)"
    by (simp add: n1)
  from 1 2 3 4 ids_nonempty_example_store getBooking_example_store show ?thesis
    by (simp only: simp_thms)
qed

section \<open>POST /api/confirm-payment\<close>

text \<open>
  C7. For a store that has a booking under \<open>bookingId\<close>, the handler called with
  non-empty \<open>paymentIntentId\<close> and \<open>bookingId\<close> answers 200 with \<open>success\<close> true and
  \<open>paymentStatus\<close> \<open>succeeded\<close>, and the stored booking then has the payment status
  \<open>completed\<close>. When either field is missing it answers 400 and the store is as before.
\<close>

theorem confirm_payment_result:
  "(p \<noteq> [] \<and> i \<noteq> [] \<and> getBooking s i = Some b \<longrightarrow>
      (\<exists>b' s'. confirm_payment (Some p) (Some i) s
                  = (Response 200 (ConfirmationBody True (Some b') ''succeeded''), s')
         \<and> getBooking s' i = Some b'
         \<and> paymentStatus b' = Some ''completed''))
   \<and> (paymentIntent = None \<or> bookingId = None \<longrightarrow>
        confirm_payment paymentIntent bookingId s
          = (Response 400 (MessageBody ''Payment intent ID and booking ID are required''), s))"
proof (intro conjI impI)
  assume h: "p \<noteq> [] \<and> i \<noteq> [] \<and> getBooking s i = Some b"
  then have b: "getBooking s i = Some b" by simp
  from h show "\<exists>b' s'. confirm_payment (Some p) (Some i) s
                  = (Response 200 (ConfirmationBody True (Some b') ''succeeded''), s')
         \<and> getBooking s' i = Some b'
         \<and> paymentStatus b' = Some ''completed''"
    by (simp add: confirm_payment_def truthy_string_def
        updateBookingPaymentStatus_present [OF b] getBooking_map_set)
next
  assume "paymentIntent = None \<or> bookingId = None"
  then show "confirm_payment paymentIntent bookingId s
          = (Response 400 (MessageBody ''Payment intent ID and booking ID are required''), s)"
    by (auto simp: confirm_payment_def split: option.splits)
qed

theorem confirm_payment_result_witness:
  "''pi_mock_1735732800000'' \<noteq> [] \<and> example_id \<noteq> []
   \<and> getBooking example_store example_id = Some example_booking
   \<and> (\<exists>b' s'. confirm_payment (Some ''pi_mock_1735732800000'') (Some example_id) example_store
                  = (Response 200 (ConfirmationBody True (Some b') ''succeeded''), s')
         \<and> getBooking s' example_id = Some b'
         \<and> paymentStatus b' = Some ''completed'')
   \<and> confirm_payment None (Some example_id) example_store
       = (Response 400 (MessageBody ''Payment intent ID and booking ID are required''),
          example_store)"
proof -
  have h1: "''pi_mock_1735732800000'' \<noteq> []" and h2: "example_id \<noteq> []"
    by (simp_all add: example_id_def)
  note a = confirm_payment_result
    [of "''pi_mock_1735732800000''" example_id example_store example_booking None
      "Some example_id"]
  from a h1 h2 getBooking_example_store
  have 1: "\<exists>b' s'. confirm_payment (Some ''pi_mock_1735732800000'') (Some example_id)
                  example_store
                  = (Response 200 (ConfirmationBody True (Some b') ''succeeded''), s')
         \<and> getBooking s' example_id = Some b'
         \<and> paymentStatus b' = Some ''completed''"
    by blast
  from a have 2: "confirm_payment None (Some example_id) example_store
       = (Response 400 (MessageBody ''Payment intent ID and booking ID are required''),
          example_store)"
    by blast
  from h1 h2 getBooking_example_store 1 2 show ?thesis by (simp only: simp_thms)
qed



section \<open>Invariants of the store under the six operations\<close>

lemma set_map_set: "set (map_set m k v) \<subseteq> insert (k, v) (set m)"
proof (induction m)
  case Nil
  show ?case by simp
next
  case (Cons kv m)
  obtain k' v' where "kv = (k', v')" by (cases kv)
  with Cons show ?case by (cases "k' = k") auto
qed

lemma set_map_set_values: "set (map snd (map_set m k v)) \<subseteq> insert v (set (map snd m))"
  using set_map_set [of m k v] by force

lemma mock_flow_statuses_map_set:
  assumes "mock_flow_statuses s"
    and "paymentStatus b \<in> {Some ''pending'', Some ''processing'', Some ''completed''}"
  shows "mock_flow_statuses (s\<lparr>bookings := map_set (bookings s) i b\<rparr>)"
proof -
  have "set (map_values (bookings (s\<lparr>bookings := map_set (bookings s) i b\<rparr>)))
      \<subseteq> insert b (set (map_values (bookings s)))"
    using set_map_set_values [of "bookings s" i b] by (simp add: map_values_def)
  with assms show ?thesis
    unfolding mock_flow_statuses_def by blast
qed

lemma mock_flow_statuses_createBooking:
  "mock_flow_statuses s \<Longrightarrow> mock_flow_statuses (snd (createBooking e p s))"
  unfolding createBooking_snd
  by (rule mock_flow_statuses_map_set) (simp_all add: createBooking_fst)

lemma mock_flow_statuses_update:
  assumes "mock_flow_statuses s"
    and "status \<in> {''pending'', ''processing'', ''completed''}"
  shows "mock_flow_statuses (snd (updateBookingPaymentStatus i status p s))"
proof (cases "getBooking s i")
  case None
  with assms(1) show ?thesis by (simp add: updateBookingPaymentStatus_absent)
next
  case (Some b)
  from assms show ?thesis
    unfolding updateBookingPaymentStatus_present [OF Some] snd_conv
    by (intro mock_flow_statuses_map_set) auto
qed

lemma mock_flow_statuses_registerRoutes:
  assumes "mock_flow_statuses s"
  shows "mock_flow_statuses (snd (registerRoutes e r s))"
proof (cases r)
  case GetExperiences
  with assms show ?thesis by (simp add: get_experiences_def)
next
  case (GetExperienceById i)
  with assms show ?thesis by (simp add: get_experience_def split: option.splits)
next
  case (PostBookings reqBody)
  with assms show ?thesis
    by (simp add: post_bookings_def split_def Let_def mock_flow_statuses_createBooking
        split: sum.splits)
next
  case (GetBookingByRef ref)
  with assms show ?thesis by (simp add: get_booking_def split: option.splits)
next
  case (PostCreatePaymentIntent amount bookingId)
  with assms show ?thesis
    by (simp add: create_payment_intent_def Let_def mock_flow_statuses_update
        split: option.splits)
next
  case (PostConfirmPayment p bookingId)
  with assms show ?thesis
    by (simp add: confirm_payment_def split_def Let_def mock_flow_statuses_update
        split: option.splits)
qed

lemma mock_flow_statuses_serve:
  "mock_flow_statuses s \<Longrightarrow> mock_flow_statuses (serve rs s)"
proof (induction rs arbitrary: s)
  case Nil
  then show ?case by simp
next
  case (Cons er rs)
  obtain e r where "er = (e, r)" by (cases er)
  with Cons show ?case by (simp add: mock_flow_statuses_registerRoutes)
qed

lemma mock_flow_statuses_MemStorage: "mock_flow_statuses MemStorage"
  by (simp add: mock_flow_statuses_def map_values_def MemStorage_bookings)

text \<open>
  C5. From the initial store, after any sequence of the six operations, every stored
  booking has the payment status \<open>pending\<close>, \<open>processing\<close> or \<open>completed\<close>, and so none
  has the payment status \<open>failed\<close>.
\<close>

theorem serve_never_failed:
  assumes "b \<in> set (map_values (bookings (serve rs MemStorage)))"
  shows "paymentStatus b \<in> {Some ''pending'', Some ''processing'', Some ''completed''}
         \<and> paymentStatus b \<noteq> Some ''failed''"
proof -
  have "mock_flow_statuses (serve rs MemStorage)"
    by (rule mock_flow_statuses_serve [OF mock_flow_statuses_MemStorage])
  with assms have "paymentStatus b \<in> {Some ''pending'', Some ''processing'', Some ''completed''}"
    by (simp add: mock_flow_statuses_def)
  then show ?thesis by auto
qed

lemma serve_example_requests:
  "bookings (serve example_requests MemStorage)
     = [(example_id, example_booking\<lparr>paymentStatus := Some ''completed'',
           stripePaymentIntentId := Some ''pi_mock_1735732800000''\<rparr>)]"
proof -
  have 1: "serve example_requests MemStorage
      = snd (confirm_payment (Some ''pi_mock_1735732800000'') (Some example_id) example_store)"
    by (simp add: example_requests_def example_store_def)
  have 2: "example_id \<noteq> []" by (simp add: example_id_def)
  have 3: "snd (confirm_payment (Some ''pi_mock_1735732800000'') (Some example_id) example_store)
      = snd (updateBookingPaymentStatus example_id ''completed''
               (Some ''pi_mock_1735732800000'') example_store)"
    using 2 by (simp add: confirm_payment_def truthy_string_def split_def Let_def)
  show ?thesis
    unfolding 1 3 updateBookingPaymentStatus_present [OF getBooking_example_store]
    by (simp add: example_store_bookings truthy_string_def)
qed

theorem serve_never_failed_witness:
  "example_booking\<lparr>paymentStatus := Some ''completed'',
       stripePaymentIntentId := Some ''pi_mock_1735732800000''\<rparr>
     \<in> set (map_values (bookings (serve example_requests MemStorage)))
   \<and> paymentStatus (example_booking\<lparr>paymentStatus := Some ''completed'',
        stripePaymentIntentId := Some ''pi_mock_1735732800000''\<rparr>) \<noteq> Some ''failed''"
proof -
  have h: "example_booking\<lparr>paymentStatus := Some ''completed'',
       stripePaymentIntentId := Some ''pi_mock_1735732800000''\<rparr>
     \<in> set (map_values (bookings (serve example_requests MemStorage)))"
    by (simp add: serve_example_requests map_values_def)
  from serve_never_failed [OF h] h show ?thesis by blast
qed

lemma ids_nonempty_map_set:
  assumes "ids_nonempty s" and "k \<noteq> []"
  shows "ids_nonempty (s\<lparr>bookings := map_set (bookings s) k v\<rparr>)"
proof -
  have "fst x \<noteq> []" if "x \<in> set (map_set (bookings s) k v)" for x
  proof -
    from that set_map_set have "x \<in> insert (k, v) (set (bookings s))"
      by (rule rev_subsetD)
    with assms show ?thesis by (auto simp: ids_nonempty_def)
  qed
  then show ?thesis by (simp add: ids_nonempty_def)
qed

lemma ids_nonempty_createBooking:
  "ids_nonempty s \<Longrightarrow> randomUUID e \<noteq> [] \<Longrightarrow> ids_nonempty (snd (createBooking e p s))"
  unfolding createBooking_snd by (rule ids_nonempty_map_set)

lemma ids_nonempty_update:
  assumes "ids_nonempty s"
  shows "ids_nonempty (snd (updateBookingPaymentStatus i status p s))"
proof (cases "getBooking s i")
  case None
  with assms show ?thesis by (simp add: updateBookingPaymentStatus_absent)
next
  case (Some b)
  with assms have "i \<noteq> []" by (rule ids_nonempty_getBooking)
  with assms show ?thesis
    unfolding updateBookingPaymentStatus_present [OF Some] snd_conv
    by (rule ids_nonempty_map_set)
qed

lemma ids_nonempty_registerRoutes:
  assumes "ids_nonempty s" and "randomUUID e \<noteq> []"
  shows "ids_nonempty (snd (registerRoutes e r s))"
proof (cases r)
  case GetExperiences
  with assms show ?thesis by (simp add: get_experiences_def)
next
  case (GetExperienceById i)
  with assms show ?thesis by (simp add: get_experience_def split: option.splits)
next
  case (PostBookings reqBody)
  with assms show ?thesis
    by (simp add: post_bookings_def split_def Let_def ids_nonempty_createBooking
        split: sum.splits)
next
  case (GetBookingByRef ref)
  with assms show ?thesis by (simp add: get_booking_def split: option.splits)
next
  case (PostCreatePaymentIntent amount bookingId)
  with assms show ?thesis
    by (simp add: create_payment_intent_def Let_def ids_nonempty_update
        split: option.splits)
next
  case (PostConfirmPayment p bookingId)
  with assms show ?thesis
    by (simp add: confirm_payment_def split_def Let_def ids_nonempty_update
        split: option.splits)
qed

lemma ids_nonempty_serve:
  "ids_nonempty s \<Longrightarrow> \<forall>(e, r) \<in> set rs. randomUUID e \<noteq> [] \<Longrightarrow> ids_nonempty (serve rs s)"
proof (induction rs arbitrary: s)
  case Nil
  then show ?case by simp
next
  case (Cons er rs)
  obtain e r where "er = (e, r)" by (cases er)
  with Cons show ?case by (simp add: ids_nonempty_registerRoutes)
qed

lemma ids_nonempty_MemStorage: "ids_nonempty MemStorage"
  by (simp add: ids_nonempty_def MemStorage_bookings)

section \<open>Validation of the booking payload\<close>

lemma check_field_valid: "check_field c v = [] \<longleftrightarrow> field_valid c v"
proof -
  obtain name ty notNull where c: "c = (name, ty, notNull)" by (cases c)
  show ?thesis
  proof (cases v)
    case None
    then show ?thesis by (simp add: c)
  next
    case (Some j)
    then show ?thesis
      by (cases j) (auto simp: c check_value_def)
  qed
qed

lemma check_field_path: "x \<in> set (check_field c v) \<Longrightarrow> path x = [fst c]"
proof -
  assume x: "x \<in> set (check_field c v)"
  obtain name ty notNull where c: "c = (name, ty, notNull)" by (cases c)
  show ?thesis
  proof (cases v)
    case None
    with x show ?thesis by (auto simp: c invalid_type_def split: if_splits)
  next
    case (Some j)
    with x show ?thesis
      by (cases j) (auto simp: c check_value_def invalid_type_def split: if_splits)
  qed
qed

lemma field_issues_paths:
  "path ` set (field_issues body c)
     = (if field_valid c (map_of body (fst c)) then {} else {[fst c]})"
proof (cases "field_valid c (map_of body (fst c))")
  case True
  then show ?thesis by (simp add: field_issues_def check_field_valid)
next
  case False
  then have "check_field c (map_of body (fst c)) \<noteq> []" by (simp add: check_field_valid)
  then obtain x where "x \<in> set (check_field c (map_of body (fst c)))"
    by (cases "check_field c (map_of body (fst c))") auto
  with False show ?thesis
    by (auto simp: field_issues_def dest: check_field_path intro!: image_eqI [where x = x])
qed

lemma issues_paths:
  "path ` set (concat (map (field_issues body) cs))
     = (\<lambda>c. [fst c]) ` {c \<in> set cs. \<not> field_valid c (map_of body (fst c))}"
proof (induction cs)
  case Nil
  show ?case by simp
next
  case (Cons c cs)
  have "path ` set (concat (map (field_issues body) (c # cs)))
      = path ` set (field_issues body c) \<union> path ` set (concat (map (field_issues body) cs))"
    by (simp add: image_Un)
  also have "\<dots> = (if field_valid c (map_of body (fst c)) then {} else {[fst c]})
      \<union> (\<lambda>c. [fst c]) ` {c \<in> set cs. \<not> field_valid c (map_of body (fst c))}"
    by (simp only: field_issues_paths Cons.IH)
  also have "\<dots> = (\<lambda>c. [fst c])
      ` {c' \<in> set (c # cs). \<not> field_valid c' (map_of body (fst c'))}"
    by (cases "field_valid c (map_of body (fst c))") auto
  finally show ?case .
qed

lemma parse_Inl:
  "parse body = Inl issues \<longleftrightarrow>
     issues = concat (map (field_issues body) insertBookingSchema) \<and> issues \<noteq> []"
  by (auto simp: parse_def Let_def)

lemma email_column: "c \<in> set insertBookingSchema \<Longrightarrow> fst c = ''email'' \<Longrightarrow> c = (''email'', Text, True)"
  by (auto simp: insertBookingSchema_def)

lemma email_column_in_schema: "(''email'', Text, True) \<in> set insertBookingSchema"
  by (simp add: insertBookingSchema_def)

lemma email_field_valid:
  "field_valid (''email'', Text, True) v \<longleftrightarrow> (\<exists>x. v = Some (JStr x))"
proof (cases v)
  case None
  then show ?thesis by simp
next
  case (Some j)
  then show ?thesis by (cases j) simp_all
qed

lemma in_set_nonempty: "x \<in> set xs \<Longrightarrow> xs \<noteq> []"
  by auto

lemma email_issue_iff:
  "[''email''] \<in> path ` set (concat (map (field_issues body) insertBookingSchema))
     \<longleftrightarrow> (\<forall>x. map_of body ''email'' \<noteq> Some (JStr x))"
proof
  assume "[''email''] \<in> path ` set (concat (map (field_issues body) insertBookingSchema))"
  then obtain c where c: "c \<in> set insertBookingSchema" "fst c = ''email''"
      "\<not> field_valid c (map_of body (fst c))"
    unfolding issues_paths by auto
  from c(1,2) have "c = (''email'', Text, True)" by (rule email_column)
  with c(3) show "\<forall>x. map_of body ''email'' \<noteq> Some (JStr x)"
    by (simp add: email_field_valid)
next
  assume "\<forall>x. map_of body ''email'' \<noteq> Some (JStr x)"
  then have "\<not> field_valid (''email'', Text, True) (map_of body ''email'')"
    by (simp add: email_field_valid)
  with email_column_in_schema
  have "(''email'', Text, True)
      \<in> {c \<in> set insertBookingSchema. \<not> field_valid c (map_of body (fst c))}"
    by simp
  then have "[fst (''email'', Text, True)]
      \<in> (\<lambda>c. [fst c]) ` {c \<in> set insertBookingSchema. \<not> field_valid c (map_of body (fst c))}"
    by (rule imageI)
  then show "[''email''] \<in> path ` set (concat (map (field_issues body) insertBookingSchema))"
    unfolding issues_paths by simp
qed

text \<open>
  C4, as amended. The validation is exhaustive: when it rejects a payload, the handler
  answers 400 with the issues, and the fields that the issues name are exactly the fields
  that are invalid, not only the first; a payload is rejected exactly when some field is
  invalid. In particular a payload whose email is missing or is not a string is rejected
  with an issue that names \<open>email\<close>, beside the issues of the other invalid fields. An
  email that is a string never gets an issue, whatever its form: the schema has no check
  of the format of an email.
\<close>

theorem insertBookingSchema_parse_exhaustive:
  "(parse body = Inl issues \<longrightarrow>
      post_bookings e body s
        = (Response 400 (ValidationErrorBody ''Validation error'' issues), s)
      \<and> path ` set issues
          = (\<lambda>c. [fst c])
              ` {c \<in> set insertBookingSchema. \<not> field_valid c (map_of body (fst c))})
   \<and> ((\<exists>errors. parse body = Inl errors)
        \<longleftrightarrow> (\<exists>c \<in> set insertBookingSchema. \<not> field_valid c (map_of body (fst c))))
   \<and> ((\<forall>x. map_of body ''email'' \<noteq> Some (JStr x)) \<longrightarrow>
        (\<exists>errors. parse body = Inl errors \<and> [''email''] \<in> path ` set errors))
   \<and> (\<forall>x errors. map_of body ''email'' = Some (JStr x) \<and> parse body = Inl errors \<longrightarrow>
        [''email''] \<notin> path ` set errors)"
proof (intro conjI allI impI)
  let ?all = "concat (map (field_issues body) insertBookingSchema)"
  {
    assume p: "parse body = Inl issues"
    then show "post_bookings e body s
        = (Response 400 (ValidationErrorBody ''Validation error'' issues), s)"
      by (simp add: post_bookings_def)
    from p have "issues = ?all" by (simp add: parse_Inl)
    then show "path ` set issues
          = (\<lambda>c. [fst c])
              ` {c \<in> set insertBookingSchema. \<not> field_valid c (map_of body (fst c))}"
      by (simp only: issues_paths)
  }
  have nonempty: "?all \<noteq> [] \<longleftrightarrow>
      (\<exists>c \<in> set insertBookingSchema. \<not> field_valid c (map_of body (fst c)))"
  proof -
    have "?all \<noteq> [] \<longleftrightarrow> path ` set ?all \<noteq> {}" by simp
    also have "\<dots> \<longleftrightarrow> (\<exists>c \<in> set insertBookingSchema. \<not> field_valid c (map_of body (fst c)))"
      unfolding issues_paths image_is_empty by blast
    finally show ?thesis .
  qed
  show "(\<exists>errors. parse body = Inl errors)
        \<longleftrightarrow> (\<exists>c \<in> set insertBookingSchema. \<not> field_valid c (map_of body (fst c)))"
    unfolding nonempty [symmetric] by (auto simp: parse_Inl)
  {
    assume "\<forall>x. map_of body ''email'' \<noteq> Some (JStr x)"
    then have m: "[''email''] \<in> path ` set ?all" by (rule iffD2 [OF email_issue_iff])
    then obtain x where "x \<in> set ?all" by (rule imageE)
    then have "?all \<noteq> []" by (rule in_set_nonempty)
    then have "parse body = Inl ?all" by (simp add: parse_Inl)
    with m show "\<exists>errors. parse body = Inl errors \<and> [''email''] \<in> path ` set errors"
      by blast
  }
  {
    fix x errors
    assume h: "map_of body ''email'' = Some (JStr x) \<and> parse body = Inl errors"
    then have "errors = ?all" by (simp add: parse_Inl)
    moreover from h have "[''email''] \<notin> path ` set ?all"
      unfolding email_issue_iff by simp
    ultimately show "[''email''] \<notin> path ` set errors" by simp
  }
qed

lemma parse_example_body_invalid:
  "parse example_body_invalid
     = Inl [Issue ''invalid_type'' [''email''] ''Required'',
            Issue ''invalid_type'' [''participants''] ''Expected number, received string'']"
  by (simp add: parse_def example_body_invalid_def insertBookingSchema_def
      field_issues_def check_value_def invalid_type_def)

lemma parse_example_body_invalid_with_email:
  "parse ((''email'', JStr ''not-an-email'') # example_body_invalid)
     = Inl [Issue ''invalid_type'' [''participants''] ''Expected number, received string'']"
  by (simp add: parse_def example_body_invalid_def insertBookingSchema_def
      field_issues_def check_value_def invalid_type_def)

theorem insertBookingSchema_parse_exhaustive_witness:
  "parse example_body_invalid
     = Inl [Issue ''invalid_type'' [''email''] ''Required'',
            Issue ''invalid_type'' [''participants''] ''Expected number, received string'']
   \<and> post_bookings example_env example_body_invalid MemStorage
       = (Response 400 (ValidationErrorBody ''Validation error''
            [Issue ''invalid_type'' [''email''] ''Required'',
             Issue ''invalid_type'' [''participants''] ''Expected number, received string'']),
          MemStorage)
   \<and> (\<lambda>c. [fst c]) ` {c \<in> set insertBookingSchema.
          \<not> field_valid c (map_of example_body_invalid (fst c))}
       = {[''email''], [''participants'']}
   \<and> map_of example_body_invalid ''email'' = None
   \<and> (\<exists>errors. parse example_body_invalid = Inl errors \<and> [''email''] \<in> path ` set errors)
   \<and> map_of ((''email'', JStr ''not-an-email'') # example_body_invalid) ''email''
       = Some (JStr ''not-an-email'')
   \<and> parse ((''email'', JStr ''not-an-email'') # example_body_invalid)
       = Inl [Issue ''invalid_type'' [''participants''] ''Expected number, received string'']
   \<and> [''email'']
       \<notin> path ` set [Issue ''invalid_type'' [''participants'']
                        ''Expected number, received string'']"
proof -
  let ?errors = "[Issue ''invalid_type'' [''email''] ''Required'',
      Issue ''invalid_type'' [''participants''] ''Expected number, received string'']"
  let ?errors' = "[Issue ''invalid_type'' [''participants'']
      ''Expected number, received string'']"
  let ?body' = "(''email'', JStr ''not-an-email'') # example_body_invalid"
  have h1: "parse example_body_invalid = Inl ?errors" by (rule parse_example_body_invalid)
  have h2: "map_of example_body_invalid ''email'' = None"
    by (simp add: example_body_invalid_def)
  then have h2': "\<forall>x. map_of example_body_invalid ''email'' \<noteq> Some (JStr x)" by simp
  have h3: "map_of ?body' ''email'' = Some (JStr ''not-an-email'')" by simp
  have h4: "parse ?body' = Inl ?errors'" by (rule parse_example_body_invalid_with_email)
  note a = insertBookingSchema_parse_exhaustive
    [of example_body_invalid ?errors example_env MemStorage]
  note b = insertBookingSchema_parse_exhaustive [of ?body' ?errors' example_env MemStorage]
  from a h1 have 1: "post_bookings example_env example_body_invalid MemStorage
       = (Response 400 (ValidationErrorBody ''Validation error'' ?errors), MemStorage)"
    by blast
  from a h1 have "path ` set ?errors
      = (\<lambda>c. [fst c]) ` {c \<in> set insertBookingSchema.
          \<not> field_valid c (map_of example_body_invalid (fst c))}"
    by blast
  then have 2: "(\<lambda>c. [fst c]) ` {c \<in> set insertBookingSchema.
          \<not> field_valid c (map_of example_body_invalid (fst c))}
       = {[''email''], [''participants'']}"
    by simp
  from a h2' have 3: "\<exists>errors. parse example_body_invalid = Inl errors
      \<and> [''email''] \<in> path ` set errors"
    by blast
  from b h3 h4 have 4: "[''email''] \<notin> path ` set ?errors'"
    by blast
  from h1 1 2 h2 3 h3 h4 4 show ?thesis by (simp only: simp_thms)
qed

text \<open>
  C4 as stated fails for a malformed email: the scenario's payload with the email
  \<open>not-an-email\<close>, which has no \<open>@\<close>, passes the validation, and the handler answers 201.
\<close>

theorem malformed_email_accepted_counterexample:
  "CHR ''@'' \<notin> set ''not-an-email''
   \<and> map_of example_body_malformed_email ''email'' = Some (JStr ''not-an-email'')
   \<and> parse example_body_malformed_email
       = Inr (example_payload\<lparr>ins_email := ''not-an-email''\<rparr>)
   \<and> status_code (fst (post_bookings example_env example_body_malformed_email MemStorage))
       = 201"
proof -
  have p: "parse example_body_malformed_email
      = Inr (example_payload\<lparr>ins_email := ''not-an-email''\<rparr>)"
    by (simp add: parse_def example_body_malformed_email_def example_payload_def
        insertBookingSchema_def field_issues_def check_value_def)
  have "map_of example_body_malformed_email ''email'' = Some (JStr ''not-an-email'')"
    by (simp add: example_body_malformed_email_def)
  moreover have "status_code (fst (post_bookings example_env example_body_malformed_email
      MemStorage)) = 201"
    by (simp add: post_bookings_def p split_def Let_def)
  ultimately show ?thesis using p by simp
qed

end
